theory Spec2Isabelle
  imports Complex_Main
begin

section \<open>Postal-code validation: the regular expression of \<open>isValidCEP\<close>\<close>

text \<open>
  Both services validate a code with
  \<^verbatim>\<open>matched, _ := regexp.MatchString(`^\d{8}$`, cep); return matched\<close>.
  Go strings are byte strings, modelled as \<open>string\<close> (a list of 8-bit \<open>char\<close>).
  The pattern is parsed without flags, so \<^verbatim>\<open>^\<close> is the beginning of the text,
  \<^verbatim>\<open>$\<close> is the end of the text (not the end of a line), and \<^verbatim>\<open>\d\<close> is the
  class of the ten ASCII digits \<^verbatim>\<open>[0-9]\<close>. The syntax tree below has exactly the
  operators this pattern uses.
\<close>

datatype regexp =
    BeginText
  | EndText
  | PerlDigit
  | Concat regexp regexp
  | Repeat nat regexp

definition perl_digit :: "char \<Rightarrow> bool" where
  "perl_digit c = (48 \<le> (of_char c :: nat) \<and> (of_char c :: nat) \<le> 57)"

text \<open>
  \<open>ends r s i\<close> lists the positions where a match of \<open>r\<close> that starts at position
  \<open>i\<close> of the text \<open>s\<close> can end. Positions count bytes; every character \<open>PerlDigit\<close>
  accepts is a one-byte rune, so stepping by bytes and stepping by runes find the same
  matches for these operators.
\<close>

primrec ends :: "regexp \<Rightarrow> string \<Rightarrow> nat \<Rightarrow> nat list" where
  "ends BeginText s = (\<lambda>i. if i = 0 then [i] else [])"
| "ends EndText s = (\<lambda>i. if i = length s then [i] else [])"
| "ends PerlDigit s = (\<lambda>i. if i < length s \<and> perl_digit (s ! i) then [Suc i] else [])"
| "ends (Concat r1 r2) s = (\<lambda>i. concat (map (ends r2 s) (ends r1 s i)))"
| "ends (Repeat n r) s = (\<lambda>i. ((\<lambda>ps. concat (map (ends r s) ps)) ^^ n) [i])"

text \<open>
  \<^verbatim>\<open>regexp.MatchString\<close> reports whether the text contains any match: the search is
  not anchored, every start position is tried. Its error result is non-nil only when the
  pattern does not compile, which this constant pattern does; the source drops it.
\<close>

definition MatchString :: "regexp \<Rightarrow> string \<Rightarrow> bool" where
  "MatchString re s = list_ex (\<lambda>i. ends re s i \<noteq> []) [0 ..< Suc (length s)]"

definition cep_pattern :: regexp where
  "cep_pattern = Concat BeginText (Concat (Repeat 8 PerlDigit) EndText)"

definition isValidCEP :: "string \<Rightarrow> bool" where
  "isValidCEP cep = MatchString cep_pattern cep"

text \<open>The rule in the words of the specification: exactly eight ASCII decimal digits.\<close>

definition eight_ascii_digits :: "string \<Rightarrow> bool" where
  "eight_ascii_digits s = (length s = 8 \<and> list_all (\<lambda>c. c \<in> set ''0123456789'') s)"

section \<open>The float64 arithmetic of the temperature conversion\<close>

text \<open>
  Temperatures are Go \<^verbatim>\<open>float64\<close> values: IEEE 754 binary64 with round to nearest,
  ties to even. \<open>Finite s m e\<close> is the number \<open>m * 2 ^ e\<close>, negated when \<open>s\<close> holds. The
  rounding returns it in one canonical form: \<open>2 ^ 52 \<le> m < 2 ^ 53\<close> and
  \<open>- 1074 \<le> e \<le> 971\<close> for a normal number, \<open>m < 2 ^ 52\<close> and \<open>e = - 1074\<close> for a subnormal
  number or a zero. Both zeros exist. Every operation below computes the exact rational
  result and rounds it once.
\<close>

datatype float64 = Finite bool nat int | Infinity bool | NaN

fun bit_length :: "nat \<Rightarrow> nat" where
  "bit_length n = (if n = 0 then 0 else Suc (bit_length (n div 2)))"

declare bit_length.simps [simp del]

text \<open>\<open>floor_log2 p q\<close> is the integer \<open>d\<close> with \<open>2 ^ d \<le> p / q < 2 ^ (d + 1)\<close>, for positive \<open>p\<close>, \<open>q\<close>.\<close>

definition floor_log2 :: "nat \<Rightarrow> nat \<Rightarrow> int" where
  "floor_log2 p q =
     (let d = int (bit_length p) - int (bit_length q)
      in if (if 0 \<le> d then q * 2 ^ nat d \<le> p else q \<le> p * 2 ^ nat (- d)) then d else d - 1)"

text \<open>\<open>round_half_even n d\<close> is the integer nearest to \<open>n / d\<close>, the even one on a tie.\<close>

definition round_half_even :: "nat \<Rightarrow> nat \<Rightarrow> nat" where
  "round_half_even n d =
     (let f = n div d; r = n mod d
      in if 2 * r < d then f else if d < 2 * r then f + 1 else if even f then f else f + 1)"

text \<open>
  \<open>round64 s p q\<close> rounds the rational \<open>p / q\<close> (with \<open>q > 0\<close>), negated when \<open>s\<close> holds, to
  binary64. The unit in the last place is \<open>2 ^ e\<close>, where \<open>e\<close> is 52 below the exponent
  of the number and never below \<open>- 1074\<close>; a mantissa rounded up to \<open>2 ^ 53\<close> moves to the
  next exponent; a result beyond the largest finite number \<open>(2 ^ 53 - 1) * 2 ^ 971\<close> is an
  infinity.
\<close>

definition round64 :: "bool \<Rightarrow> nat \<Rightarrow> nat \<Rightarrow> float64" where
  "round64 s p q =
     (if p = 0 then Finite s 0 (- 1074)
      else let e = max (floor_log2 p q) (- 1022) - 52;
               m = (if e < 0 then round_half_even (p * 2 ^ nat (- e)) q
                    else round_half_even p (q * 2 ^ nat e));
               e' = (if m = 2 ^ 53 then e + 1 else e);
               m' = (if m = 2 ^ 53 then 2 ^ 52 else m)
           in if 971 < e' then Infinity s else Finite s m' e')"

text \<open>The binary number \<open>m * 2 ^ e\<close> and the decimal number \<open>m * 10 ^ e\<close>, signed by \<open>s\<close>, rounded.\<close>

definition scaled :: "bool \<Rightarrow> nat \<Rightarrow> int \<Rightarrow> float64" where
  "scaled s m e = (if 0 \<le> e then round64 s (m * 2 ^ nat e) 1 else round64 s m (2 ^ nat (- e)))"

definition decimal :: "bool \<Rightarrow> nat \<Rightarrow> int \<Rightarrow> float64" where
  "decimal s m e = (if 0 \<le> e then round64 s (m * 10 ^ nat e) 1 else round64 s m (10 ^ nat (- e)))"

text \<open>Multiplication \<^verbatim>\<open>x * y\<close> and addition \<^verbatim>\<open>x + y\<close> of float64 values.\<close>

fun fmul :: "float64 \<Rightarrow> float64 \<Rightarrow> float64" where
  "fmul NaN y = NaN"
| "fmul x NaN = NaN"
| "fmul (Infinity s) (Infinity t) = Infinity (s \<noteq> t)"
| "fmul (Infinity s) (Finite t m e) = (if m = 0 then NaN else Infinity (s \<noteq> t))"
| "fmul (Finite s m e) (Infinity t) = (if m = 0 then NaN else Infinity (s \<noteq> t))"
| "fmul (Finite s m e) (Finite t n f) =
     (if m = 0 \<or> n = 0 then Finite (s \<noteq> t) 0 (- 1074)
      else scaled (s \<noteq> t) (m * n) (e + f))"

definition signed :: "bool \<Rightarrow> nat \<Rightarrow> int" where
  "signed s m = (if s then - int m else int m)"

text \<open>
  \<open>exact_sum s m e t n f\<close> is the sum of the numbers \<open>m * 2 ^ e\<close> signed by \<open>s\<close> and
  \<open>n * 2 ^ f\<close> signed by \<open>t\<close>, rounded. A zero added to a number leaves it as it is; a sum
  that is zero is the negative zero only when both numbers are negative zeros.
\<close>

definition exact_sum :: "bool \<Rightarrow> nat \<Rightarrow> int \<Rightarrow> bool \<Rightarrow> nat \<Rightarrow> int \<Rightarrow> float64" where
  "exact_sum s m e t n f =
     (if m = 0 \<and> n = 0 then Finite (s \<and> t) 0 (- 1074)
      else if n = 0 then scaled s m e
      else if m = 0 then scaled t n f
      else let g = min e f;
               k = signed s m * 2 ^ nat (e - g) + signed t n * 2 ^ nat (f - g)
           in if k = 0 then Finite False 0 (- 1074)
              else scaled (k < 0) (nat \<bar>k\<bar>) g)"

fun fadd :: "float64 \<Rightarrow> float64 \<Rightarrow> float64" where
  "fadd NaN y = NaN"
| "fadd x NaN = NaN"
| "fadd (Infinity s) (Infinity t) = (if s = t then Infinity s else NaN)"
| "fadd (Infinity s) (Finite t m e) = Infinity s"
| "fadd (Finite s m e) (Infinity t) = Infinity t"
| "fadd (Finite s m e) (Finite t n f) = exact_sum s m e t n f"

text \<open>
  The fused multiply-add \<open>x * y + z\<close> with a single rounding. The Go specification lets a
  compiler fuse \<^verbatim>\<open>x*y + z\<close>, and the arm64 compiler does; the amd64 compiler rounds the
  product first.
\<close>

fun ffma :: "float64 \<Rightarrow> float64 \<Rightarrow> float64 \<Rightarrow> float64" where
  "ffma (Finite s m e) (Finite t n f) (Finite u k g) = exact_sum (s \<noteq> t) (m * n) (e + f) u k g"
| "ffma (Finite s m e) (Finite t n f) z = z"
| "ffma x y z = fadd (fmul x y) z"

definition is_finite :: "float64 \<Rightarrow> bool" where
  "is_finite x = (case x of Finite s m e \<Rightarrow> True | _ \<Rightarrow> False)"

text \<open>The real number a finite float64 value stands for (0 is given for an infinity and a NaN).\<close>

definition valof :: "float64 \<Rightarrow> real" where
  "valof x = (case x of Finite s m e \<Rightarrow> (if s then - 1 else 1) * real m * 2 powi e | _ \<Rightarrow> 0)"

text \<open>
  The unit roundoff of binary64, the largest relative error of a rounding to a normal
  number, and the largest error of a rounding below the normal range.
\<close>

definition unit_roundoff :: real where
  "unit_roundoff = 2 powi (- 53)"

definition underflow :: real where
  "underflow = 2 powi (- 1075)"

text \<open>
  \<^verbatim>\<open>func celsiusToFahrenheit(celsius float64) float64 { return celsius*1.8 + 32 }\<close>
  \<^verbatim>\<open>func celsiusToKelvin(celsius float64) float64 { return celsius + 273.15 }\<close>
  The constants \<^verbatim>\<open>1.8\<close>, \<^verbatim>\<open>32\<close> and \<^verbatim>\<open>273.15\<close> are exact decimal constants that the
  compiler converts to float64, rounding to nearest.
\<close>

definition celsiusToFahrenheit :: "float64 \<Rightarrow> float64" where
  "celsiusToFahrenheit celsius = fadd (fmul celsius (decimal False 18 (- 1))) (decimal False 32 0)"

definition celsiusToKelvin :: "float64 \<Rightarrow> float64" where
  "celsiusToKelvin celsius = fadd celsius (decimal False 27315 (- 2))"

definition celsiusToFahrenheit_fused :: "float64 \<Rightarrow> float64" where
  "celsiusToFahrenheit_fused celsius = ffma celsius (decimal False 18 (- 1)) (decimal False 32 0)"

section \<open>JSON documents and \<^verbatim>\<open>encoding/json\<close> decoding\<close>

text \<open>
  A JSON text is modelled by its syntax tree. A number is the decimal \<open>m * 10 ^ e\<close> its
  literal denotes, with its sign; the members of an object keep their order and their
  duplicates. Strings hold the bytes the decoder has already unquoted.
\<close>

datatype json =
    JNull
  | JBool bool
  | JNumber bool nat int
  | JString string
  | JArray "json list"
  | JObject "(string \<times> json) list"

text \<open>
  What \<^verbatim>\<open>json.NewDecoder(body).Decode(&v)\<close> finds at the head of a message body: nothing
  (\<^verbatim>\<open>io.EOF\<close>); a read that fails before a value is complete, with the error of the
  reader (a timeout of the client or a connection reset while the body arrives); bytes
  that were read whole and are not a JSON value, with the decoder's syntax error; or a
  JSON value. The decoder reads one value and ignores what follows.
\<close>

datatype payload = NoBody | ReadError string | Malformed string | Doc json

text \<open>
  Go errors are compared by their text in \<^verbatim>\<open>handleWeather\<close>, so an error is modelled by
  its message. \<open>saveError\<close> keeps the first error of a decoding, which goes on to the end
  of the value, as \<^verbatim>\<open>decodeState.saveError\<close> does.
\<close>

type_synonym saved = "string option"

definition saveError :: "string \<Rightarrow> saved \<Rightarrow> saved" where
  "saveError err savedError = (case savedError of None \<Rightarrow> Some err | Some first \<Rightarrow> Some first)"

fun json_kind :: "json \<Rightarrow> string" where
  "json_kind JNull = ''null''"
| "json_kind (JBool b) = ''bool''"
| "json_kind (JNumber s m e) = ''number''"
| "json_kind (JString s) = ''string''"
| "json_kind (JArray xs) = ''array''"
| "json_kind (JObject ms) = ''object''"

text \<open>
  The message of an \<^verbatim>\<open>UnmarshalTypeError\<close>. For a number the library adds the literal
  to the value's kind; the literal is not kept here. These messages reach only the log.
\<close>

definition UnmarshalTypeError :: "json \<Rightarrow> string \<Rightarrow> string \<Rightarrow> string" where
  "UnmarshalTypeError v field ty =
     ''json: cannot unmarshal '' @ json_kind v @
     (if field = [] then '' into Go value of type '' else '' into Go struct field '' @ field @ '' of type '')
     @ ty"

text \<open>
  Storing a JSON value into a Go variable of type \<^verbatim>\<open>string\<close>, \<^verbatim>\<open>bool\<close> or
  \<^verbatim>\<open>float64\<close>: \<^verbatim>\<open>null\<close> leaves the variable as it is, a value of the matching kind is
  stored, any other value saves a type error and leaves the variable as it is. A number
  is converted by \<^verbatim>\<open>strconv.ParseFloat\<close>, which rounds to nearest and reports a literal
  beyond the float64 range as an error.
\<close>

definition store_string :: "string \<Rightarrow> json \<Rightarrow> string \<times> saved \<Rightarrow> string \<times> saved" where
  "store_string field v st =
     (case v of
        JNull \<Rightarrow> st
      | JString s \<Rightarrow> (s, snd st)
      | _ \<Rightarrow> (fst st, saveError (UnmarshalTypeError v field ''string'') (snd st)))"

definition store_bool :: "string \<Rightarrow> json \<Rightarrow> bool \<times> saved \<Rightarrow> bool \<times> saved" where
  "store_bool field v st =
     (case v of
        JNull \<Rightarrow> st
      | JBool b \<Rightarrow> (b, snd st)
      | _ \<Rightarrow> (fst st, saveError (UnmarshalTypeError v field ''bool'') (snd st)))"

definition store_float64 :: "string \<Rightarrow> json \<Rightarrow> float64 \<times> saved \<Rightarrow> float64 \<times> saved" where
  "store_float64 field v st =
     (case v of
        JNull \<Rightarrow> st
      | JNumber s m e \<Rightarrow>
          (if is_finite (decimal s m e) then (decimal s m e, snd st)
           else (fst st, saveError (UnmarshalTypeError v field ''float64'') (snd st)))
      | _ \<Rightarrow> (fst st, saveError (UnmarshalTypeError v field ''float64'') (snd st)))"

text \<open>
  A key of a JSON object selects the struct field whose JSON name it equals, or else the
  field whose name it equals under Unicode simple case folding. All field names here are
  ASCII; the only characters outside ASCII that fold to an ASCII letter are U+017F (to
  \<open>S\<close>) and U+212A (to \<open>K\<close>), given below by their UTF-8 bytes.
\<close>

definition fold_byte :: "char \<Rightarrow> char" where
  "fold_byte c =
     (case map_of (zip ''abcdefghijklmnopqrstuvwxyz'' ''ABCDEFGHIJKLMNOPQRSTUVWXYZ'') c of
        Some upper \<Rightarrow> upper
      | None \<Rightarrow> c)"

fun foldName :: "string \<Rightarrow> string" where
  "foldName (a # b # c # rest) =
     (if a = CHR 0xE2 \<and> b = CHR 0x84 \<and> c = CHR 0xAA then CHR ''K'' # foldName rest
      else if a = CHR 0xC5 \<and> b = CHR 0xBF then CHR ''S'' # foldName (c # rest)
      else fold_byte a # foldName (b # c # rest))"
| "foldName [a, b] =
     (if a = CHR 0xC5 \<and> b = CHR 0xBF then ''S'' else [fold_byte a, fold_byte b])"
| "foldName [a] = [fold_byte a]"
| "foldName [] = []"

definition find_field :: "string list \<Rightarrow> string \<Rightarrow> string option" where
  "find_field names key =
     (if key \<in> set names then Some key
      else List.find (\<lambda>name. foldName name = foldName key) names)"

text \<open>
  Decoding a JSON value into a struct: an object is decoded member by member, in order,
  by \<open>member\<close>; \<^verbatim>\<open>null\<close> leaves the struct as it is; any other value saves a type error.
  A key that selects no field is skipped with its value.
\<close>

primrec object :: "(string \<Rightarrow> json \<Rightarrow> 'a \<times> saved \<Rightarrow> 'a \<times> saved) \<Rightarrow>
    (string \<times> json) list \<Rightarrow> 'a \<times> saved \<Rightarrow> 'a \<times> saved" where
  "object member [] st = st"
| "object member (kv # members) st = object member members (member (fst kv) (snd kv) st)"

definition struct_value :: "string \<Rightarrow> string \<Rightarrow> (string \<Rightarrow> json \<Rightarrow> 'a \<times> saved \<Rightarrow> 'a \<times> saved) \<Rightarrow>
    json \<Rightarrow> 'a \<times> saved \<Rightarrow> 'a \<times> saved" where
  "struct_value field ty member v st =
     (case v of
        JNull \<Rightarrow> st
      | JObject members \<Rightarrow> object member members st
      | _ \<Rightarrow> (fst st, saveError (UnmarshalTypeError v field ty) (snd st)))"

text \<open>A field of a struct, decoded by \<open>store\<close>, read by \<open>get\<close> and written by \<open>put\<close>.\<close>

definition into_field :: "('f \<times> saved \<Rightarrow> 'f \<times> saved) \<Rightarrow> ('a \<Rightarrow> 'f) \<Rightarrow> ('f \<Rightarrow> 'a \<Rightarrow> 'a) \<Rightarrow>
    'a \<times> saved \<Rightarrow> 'a \<times> saved" where
  "into_field store get put st =
     (let r = store (get (fst st), snd st) in (put (fst r) (fst st), snd r))"

definition Decode :: "(json \<Rightarrow> 'a \<times> saved \<Rightarrow> 'a \<times> saved) \<Rightarrow> 'a \<Rightarrow> payload \<Rightarrow> string + 'a" where
  "Decode decode_value zero body =
     (case body of
        NoBody \<Rightarrow> Inl ''EOF''
      | ReadError err \<Rightarrow> Inl err
      | Malformed err \<Rightarrow> Inl err
      | Doc v \<Rightarrow>
          (case decode_value v (zero, None) of
             (x, None) \<Rightarrow> Inr x
           | (x, Some err) \<Rightarrow> Inl err))"

subsection \<open>The structs of the two services\<close>

text \<open>
  \<^verbatim>\<open>type CEPRequest struct { CEP string `json:"cep"` }\<close>
  \<^verbatim>\<open>type ErrorResponse struct { Message string `json:"message"` }\<close>
  \<^verbatim>\<open>type WeatherResponse struct { City string; TempC, TempF, TempK float64 }\<close>
\<close>

record CEPRequest =
  CEP :: string

record ErrorResponse =
  Message :: string

record WeatherResponse =
  City :: string
  TempC :: float64
  TempF :: float64
  TempK :: float64

text \<open>
  \<^verbatim>\<open>ViaCEPResponse\<close>, whose field \<^verbatim>\<open>CEP\<close> is named \<open>ViaCEP_CEP\<close> here, and
  \<^verbatim>\<open>WeatherAPIResponse\<close>, whose two anonymous structs \<^verbatim>\<open>Location\<close> and \<^verbatim>\<open>Current\<close> are
  kept as records of their own.
\<close>

record ViaCEPResponse =
  ViaCEP_CEP :: string
  Logradouro :: string
  Complemento :: string
  Bairro :: string
  Localidade :: string
  UF :: string
  IBGE :: string
  GIA :: string
  DDD :: string
  SIAFI :: string
  Erro :: bool

record WeatherAPILocation =
  Name :: string
  Region :: string
  Country :: string

record WeatherAPICurrent =
  Current_TempC :: float64
  Current_TempF :: float64

record WeatherAPIResponse =
  Location :: WeatherAPILocation
  Current :: WeatherAPICurrent

definition zero_float64 :: float64 where
  "zero_float64 = Finite False 0 (- 1074)"

definition zero_CEPRequest :: CEPRequest where
  "zero_CEPRequest = \<lparr>CEP = []\<rparr>"

definition zero_ViaCEPResponse :: ViaCEPResponse where
  "zero_ViaCEPResponse =
     \<lparr>ViaCEP_CEP = [], Logradouro = [], Complemento = [], Bairro = [], Localidade = [], UF = [],
      IBGE = [], GIA = [], DDD = [], SIAFI = [], Erro = False\<rparr>"

definition zero_WeatherAPIResponse :: WeatherAPIResponse where
  "zero_WeatherAPIResponse =
     \<lparr>Location = \<lparr>Name = [], Region = [], Country = []\<rparr>,
      Current = \<lparr>Current_TempC = zero_float64, Current_TempF = zero_float64\<rparr>\<rparr>"

definition member_CEPRequest :: "string \<Rightarrow> json \<Rightarrow> CEPRequest \<times> saved \<Rightarrow> CEPRequest \<times> saved" where
  "member_CEPRequest key v st =
     (case find_field [''cep''] key of
        None \<Rightarrow> st
      | Some name \<Rightarrow> into_field (store_string ''CEPRequest.cep'' v) CEP (\<lambda>x r. r\<lparr>CEP := x\<rparr>) st)"

definition Decode_CEPRequest :: "payload \<Rightarrow> string + CEPRequest" where
  "Decode_CEPRequest body =
     Decode (struct_value [] ''main.CEPRequest'' member_CEPRequest) zero_CEPRequest body"

definition ViaCEP_names :: "string list" where
  "ViaCEP_names = [''cep'', ''logradouro'', ''complemento'', ''bairro'', ''localidade'', ''uf'',
     ''ibge'', ''gia'', ''ddd'', ''siafi'', ''erro'']"

definition member_ViaCEPResponse ::
    "string \<Rightarrow> json \<Rightarrow> ViaCEPResponse \<times> saved \<Rightarrow> ViaCEPResponse \<times> saved" where
  "member_ViaCEPResponse key v st =
     (case find_field ViaCEP_names key of
        None \<Rightarrow> st
      | Some name \<Rightarrow>
          (let str = store_string (''ViaCEPResponse.'' @ name) v in
           if name = ''cep'' then into_field str ViaCEP_CEP (\<lambda>x r. r\<lparr>ViaCEP_CEP := x\<rparr>) st
           else if name = ''logradouro'' then into_field str Logradouro (\<lambda>x r. r\<lparr>Logradouro := x\<rparr>) st
           else if name = ''complemento'' then into_field str Complemento (\<lambda>x r. r\<lparr>Complemento := x\<rparr>) st
           else if name = ''bairro'' then into_field str Bairro (\<lambda>x r. r\<lparr>Bairro := x\<rparr>) st
           else if name = ''localidade'' then into_field str Localidade (\<lambda>x r. r\<lparr>Localidade := x\<rparr>) st
           else if name = ''uf'' then into_field str UF (\<lambda>x r. r\<lparr>UF := x\<rparr>) st
           else if name = ''ibge'' then into_field str IBGE (\<lambda>x r. r\<lparr>IBGE := x\<rparr>) st
           else if name = ''gia'' then into_field str GIA (\<lambda>x r. r\<lparr>GIA := x\<rparr>) st
           else if name = ''ddd'' then into_field str DDD (\<lambda>x r. r\<lparr>DDD := x\<rparr>) st
           else if name = ''siafi'' then into_field str SIAFI (\<lambda>x r. r\<lparr>SIAFI := x\<rparr>) st
           else into_field (store_bool ''ViaCEPResponse.erro'' v) Erro (\<lambda>x r. r\<lparr>Erro := x\<rparr>) st))"

definition Decode_ViaCEPResponse :: "payload \<Rightarrow> string + ViaCEPResponse" where
  "Decode_ViaCEPResponse body =
     Decode (struct_value [] ''main.ViaCEPResponse'' member_ViaCEPResponse) zero_ViaCEPResponse body"

definition member_Location ::
    "string \<Rightarrow> json \<Rightarrow> WeatherAPILocation \<times> saved \<Rightarrow> WeatherAPILocation \<times> saved" where
  "member_Location key v st =
     (case find_field [''name'', ''region'', ''country''] key of
        None \<Rightarrow> st
      | Some name \<Rightarrow>
          (let str = store_string (''WeatherAPIResponse.location.'' @ name) v in
           if name = ''name'' then into_field str Name (\<lambda>x r. r\<lparr>Name := x\<rparr>) st
           else if name = ''region'' then into_field str Region (\<lambda>x r. r\<lparr>Region := x\<rparr>) st
           else into_field str Country (\<lambda>x r. r\<lparr>Country := x\<rparr>) st))"

definition member_Current ::
    "string \<Rightarrow> json \<Rightarrow> WeatherAPICurrent \<times> saved \<Rightarrow> WeatherAPICurrent \<times> saved" where
  "member_Current key v st =
     (case find_field [''temp_c'', ''temp_f''] key of
        None \<Rightarrow> st
      | Some name \<Rightarrow>
          (let num = store_float64 (''WeatherAPIResponse.current.'' @ name) v in
           if name = ''temp_c'' then into_field num Current_TempC (\<lambda>x r. r\<lparr>Current_TempC := x\<rparr>) st
           else into_field num Current_TempF (\<lambda>x r. r\<lparr>Current_TempF := x\<rparr>) st))"

definition member_WeatherAPIResponse ::
    "string \<Rightarrow> json \<Rightarrow> WeatherAPIResponse \<times> saved \<Rightarrow> WeatherAPIResponse \<times> saved" where
  "member_WeatherAPIResponse key v st =
     (case find_field [''location'', ''current''] key of
        None \<Rightarrow> st
      | Some name \<Rightarrow>
          (if name = ''location''
           then into_field
                  (struct_value ''WeatherAPIResponse.location'' ''struct'' member_Location v)
                  Location (\<lambda>x r. r\<lparr>Location := x\<rparr>) st
           else into_field
                  (struct_value ''WeatherAPIResponse.current'' ''struct'' member_Current v)
                  Current (\<lambda>x r. r\<lparr>Current := x\<rparr>) st))"

definition Decode_WeatherAPIResponse :: "payload \<Rightarrow> string + WeatherAPIResponse" where
  "Decode_WeatherAPIResponse body =
     Decode (struct_value [] ''main.WeatherAPIResponse'' member_WeatherAPIResponse)
       zero_WeatherAPIResponse body"

text \<open>
  \<^verbatim>\<open>json.Marshal(CEPRequest{CEP: cep})\<close>: an object with the one member \<^verbatim>\<open>cep\<close>. The
  marshalling of a struct of one string never fails; the error branch of the source is dead.
\<close>

definition Marshal_CEPRequest :: "CEPRequest \<Rightarrow> payload" where
  "Marshal_CEPRequest payload = Doc (JObject [(''cep'', JString (CEP payload))])"

section \<open>HTTP: requests, responses, the client and the response writer\<close>

text \<open>
  A header is a list of keys with their values. A request carries its method, its URL,
  its header and its body; a response its status code, its header and its body. The
  type of a response body is a parameter: the Resolver decodes JSON from the bodies
  it receives, the Gateway reads the bytes of the body it receives without decoding them.
\<close>

type_synonym header = "(string \<times> string) list"

definition Set_header :: "string \<Rightarrow> string \<Rightarrow> header \<Rightarrow> header" where
  "Set_header key val h = (key, val) # filter (\<lambda>kv. fst kv \<noteq> key) h"

record Request =
  Method :: string
  URL :: string
  Header :: header
  Body :: payload

record 'b Response =
  StatusCode :: int
  RespHeader :: header
  RespBody :: 'b

text \<open>
  The bytes a handler writes to its client: literal text, or the line that
  \<^verbatim>\<open>json.NewEncoder(w).Encode(v)\<close> writes for a Go value \<open>v\<close>.
\<close>

datatype chunk =
    Bytes string
  | Encoded_ErrorResponse ErrorResponse
  | Encoded_WeatherResponse WeatherResponse

text \<open>
  What a service finds outside itself: the process environment, whether
  \<^verbatim>\<open>http.NewRequestWithContext\<close> rejects a URL (with the error's message), and what
  \<^verbatim>\<open>client.Do\<close> returns for a request, an error message or a response. A timeout is one
  of the errors of \<^verbatim>\<open>client.Do\<close>. Spans, span attributes and log lines are not modelled.
\<close>

record 'b Env =
  environ :: "string \<Rightarrow> string option"
  url_error :: "string \<Rightarrow> string option"
  Do :: "Request \<Rightarrow> string + 'b Response"

definition Getenv :: "'b Env \<Rightarrow> string \<Rightarrow> string" where
  "Getenv env key = (case environ env key of None \<Rightarrow> [] | Some val \<Rightarrow> val)"

definition NewRequestWithContext :: "'b Env \<Rightarrow> string \<Rightarrow> string \<Rightarrow> payload \<Rightarrow> string + Request" where
  "NewRequestWithContext env method url body =
     (case url_error env url of
        Some err \<Rightarrow> Inl err
      | None \<Rightarrow> Inr \<lparr>Method = method, URL = url, Header = [], Body = body\<rparr>)"

text \<open>
  The \<^verbatim>\<open>http.ResponseWriter\<close> of a handler. \<open>header\<close> is the map \<^verbatim>\<open>w.Header()\<close>.
  The first \<^verbatim>\<open>WriteHeader\<close> with a final status code fixes the status and sends a
  snapshot of the header; later calls change nothing. A code outside 100..999 panics; an
  informational code (1xx other than 101) is sent at once and leaves the writer waiting
  for the final one. \<^verbatim>\<open>Write\<close> sends the header with status 200 when nothing has sent it.
  A panic ends the handler, so a writer that has panicked takes no further operation.
  Writing to the client is taken to succeed.
\<close>

record ResponseWriter =
  header :: header
  wroteHeader :: bool
  status :: int
  snapshot :: header
  informational :: "int list"
  written :: "chunk list"
  panicked :: bool

definition new_ResponseWriter :: ResponseWriter where
  "new_ResponseWriter =
     \<lparr>header = [], wroteHeader = False, status = 0, snapshot = [], informational = [],
      written = [], panicked = False\<rparr>"

definition Header_Set :: "string \<Rightarrow> string \<Rightarrow> ResponseWriter \<Rightarrow> ResponseWriter" where
  "Header_Set key val w = (if panicked w then w else w\<lparr>header := Set_header key val (header w)\<rparr>)"

definition WriteHeader :: "int \<Rightarrow> ResponseWriter \<Rightarrow> ResponseWriter" where
  "WriteHeader code w =
     (if panicked w \<or> wroteHeader w then w
      else if code < 100 \<or> 999 < code then w\<lparr>panicked := True\<rparr>
      else if 100 \<le> code \<and> code \<le> 199 \<and> code \<noteq> 101 then w\<lparr>informational := informational w @ [code]\<rparr>
      else w\<lparr>wroteHeader := True, status := code, snapshot := header w\<rparr>)"

definition Write :: "chunk list \<Rightarrow> ResponseWriter \<Rightarrow> ResponseWriter" where
  "Write bs w =
     (if panicked w then w
      else let w' = WriteHeader 200 w in w'\<lparr>written := written w' @ bs\<rparr>)"

text \<open>
  The response the client receives once the handler has returned: none after a panic
  (the server closes the connection); status 200 with the header as it stands when the
  handler wrote nothing.
\<close>

definition served :: "ResponseWriter \<Rightarrow> chunk list Response option" where
  "served w =
     (if panicked w then None
      else let w' = WriteHeader 200 w
           in Some \<lparr>StatusCode = status w', RespHeader = snapshot w', RespBody = written w'\<rparr>)"

text \<open>
  \<^verbatim>\<open>http.Error(w, error, code)\<close> sets the content type of plain text, writes the header
  and prints the message and a newline.
\<close>

definition http_Error :: "ResponseWriter \<Rightarrow> string \<Rightarrow> int \<Rightarrow> ResponseWriter" where
  "http_Error w err code =
     Write [Bytes (err @ [CHR 0x0A])]
       (WriteHeader code
          (Header_Set ''X-Content-Type-Options'' ''nosniff''
             (Header_Set ''Content-Type'' ''text/plain; charset=utf-8'' w)))"

text \<open>
  \<^verbatim>\<open>func writeErrorResponse(w http.ResponseWriter, message string, statusCode int)\<close>,
  the same in both services. Encoding a struct of one string does not fail.
\<close>

definition writeErrorResponse :: "ResponseWriter \<Rightarrow> string \<Rightarrow> int \<Rightarrow> ResponseWriter" where
  "writeErrorResponse w message statusCode =
     (let w = Header_Set ''Content-Type'' ''application/json'' w;
          w = WriteHeader statusCode w;
          response = \<lparr>Message = message\<rparr>
      in Write [Encoded_ErrorResponse response] w)"

text \<open>\<^verbatim>\<open>fmt.Sprintf("%d", n)\<close> and \<^verbatim>\<open>url.QueryEscape\<close>.\<close>

fun decimal_digits :: "nat \<Rightarrow> string" where
  "decimal_digits n =
     (if n < 10 then [''0123456789'' ! n]
      else decimal_digits (n div 10) @ [''0123456789'' ! (n mod 10)])"

definition Itoa :: "int \<Rightarrow> string" where
  "Itoa i = (if i < 0 then CHR ''-'' # decimal_digits (nat (- i)) else decimal_digits (nat i))"

definition unreserved :: "char \<Rightarrow> bool" where
  "unreserved c =
     (let n = (of_char c :: nat)
      in (97 \<le> n \<and> n \<le> 122) \<or> (65 \<le> n \<and> n \<le> 90) \<or> (48 \<le> n \<and> n \<le> 57)
         \<or> c = CHR ''-'' \<or> c = CHR ''_'' \<or> c = CHR ''.'' \<or> c = CHR ''~'')"

definition upperhex :: "nat \<Rightarrow> char" where
  "upperhex n = ''0123456789ABCDEF'' ! n"

definition QueryEscape :: "string \<Rightarrow> string" where
  "QueryEscape s =
     concat (map (\<lambda>c. if unreserved c then [c]
                       else if c = CHR '' '' then ''+''
                       else [CHR ''%'', upperhex ((of_char c :: nat) div 16),
                             upperhex ((of_char c :: nat) mod 16)]) s)"

section \<open>The Resolver (service B)\<close>

text \<open>
  Each function returns, with its result, the requests it has handed to \<^verbatim>\<open>client.Do\<close>,
  in order: the external calls it has made.

  \<^verbatim>\<open>func getLocationFromCEP(ctx context.Context, cep string) (string, error)\<close>
\<close>

definition getLocationFromCEP :: "payload Env \<Rightarrow> string \<Rightarrow> (string + string) \<times> Request list" where
  "getLocationFromCEP env cep =
     (let url = ''https://viacep.com.br/ws/'' @ cep @ ''/json/'' in
      case NewRequestWithContext env ''GET'' url NoBody of
        Inl err \<Rightarrow> (Inl (''failed to create request: '' @ err), [])
      | Inr req \<Rightarrow>
          (case Do env req of
             Inl err \<Rightarrow> (Inl (''failed to make request to ViaCEP: '' @ err), [req])
           | Inr resp \<Rightarrow>
               if StatusCode resp \<noteq> 200
               then (Inl (''ViaCEP returned status '' @ Itoa (StatusCode resp)), [req])
               else
                 (case Decode_ViaCEPResponse (RespBody resp) of
                    Inl err \<Rightarrow> (Inl ''can not find zipcode'', [req])
                  | Inr viaCEPResp \<Rightarrow>
                      if Erro viaCEPResp then (Inl ''can not find zipcode'', [req])
                      else (Inr (Localidade viaCEPResp), [req]))))"

text \<open>
  \<^verbatim>\<open>func getWeatherFromAPI(ctx context.Context, location string) (*WeatherResponse, error)\<close>
\<close>

definition getWeatherFromAPI ::
    "payload Env \<Rightarrow> string \<Rightarrow> (string + WeatherResponse) \<times> Request list" where
  "getWeatherFromAPI env location =
     (let weatherAPIKey = Getenv env ''WEATHER_API_KEY'' in
      if weatherAPIKey = [] \<or> weatherAPIKey = ''your_weather_api_key_here''
      then
        (let tempC = decimal False 225 (- 1)
         in (Inr \<lparr>City = location, TempC = tempC, TempF = celsiusToFahrenheit tempC,
                   TempK = celsiusToKelvin tempC\<rparr>, []))
      else
        (let apiURL = ''http://api.weatherapi.com/v1/current.json?key='' @ weatherAPIKey
                        @ ''&q='' @ QueryEscape location @ ''&aqi=no'' in
         case NewRequestWithContext env ''GET'' apiURL NoBody of
           Inl err \<Rightarrow> (Inl (''failed to create request: '' @ err), [])
         | Inr req \<Rightarrow>
             (case Do env req of
                Inl err \<Rightarrow> (Inl (''failed to make request to WeatherAPI: '' @ err), [req])
              | Inr resp \<Rightarrow>
                  if StatusCode resp \<noteq> 200
                  then (Inl (''WeatherAPI returned status '' @ Itoa (StatusCode resp)), [req])
                  else
                    (case Decode_WeatherAPIResponse (RespBody resp) of
                       Inl err \<Rightarrow> (Inl (''failed to decode WeatherAPI response: '' @ err), [req])
                     | Inr weatherResp \<Rightarrow>
                         (let tempC = Current_TempC (Current weatherResp);
                              tempF = celsiusToFahrenheit tempC;
                              tempK = celsiusToKelvin tempC
                          in (Inr \<lparr>City = Name (Location weatherResp), TempC = tempC,
                                    TempF = tempF, TempK = tempK\<rparr>, [req]))))))"

text \<open>
  \<^verbatim>\<open>json.NewEncoder(w).Encode(weather)\<close> fails on a float64 that is an infinity or a NaN
  and then writes nothing; the handler logs the failure.
\<close>

definition Encode_WeatherResponse :: "WeatherResponse \<Rightarrow> ResponseWriter \<Rightarrow> ResponseWriter" where
  "Encode_WeatherResponse weather w =
     (if is_finite (TempC weather) \<and> is_finite (TempF weather) \<and> is_finite (TempK weather)
      then Write [Encoded_WeatherResponse weather] w
      else w)"

text \<open>\<^verbatim>\<open>func handleWeather(w http.ResponseWriter, r *http.Request)\<close>\<close>

definition handleWeather :: "payload Env \<Rightarrow> ResponseWriter \<Rightarrow> Request \<Rightarrow> ResponseWriter \<times> Request list" where
  "handleWeather env w r =
     (if Method r \<noteq> ''POST'' then (http_Error w ''Method not allowed'' 405, [])
      else
        case Decode_CEPRequest (Body r) of
          Inl err \<Rightarrow> (writeErrorResponse w ''invalid request body'' 400, [])
        | Inr req \<Rightarrow>
            if \<not> isValidCEP (CEP req) then (writeErrorResponse w ''invalid zipcode'' 422, [])
            else
              (case getLocationFromCEP env (CEP req) of
                 (Inl err, calls) \<Rightarrow>
                   (if err = ''CEP not found'' \<or> err = ''can not find zipcode''
                    then writeErrorResponse w ''can not find zipcode'' 404
                    else writeErrorResponse w ''internal server error'' 500,
                    calls)
               | (Inr location, calls) \<Rightarrow>
                   (case getWeatherFromAPI env location of
                      (Inl err, calls') \<Rightarrow>
                        (writeErrorResponse w ''internal server error'' 500, calls @ calls')
                    | (Inr weather, calls') \<Rightarrow>
                        (Encode_WeatherResponse weather
                           (WriteHeader 200 (Header_Set ''Content-Type'' ''application/json'' w)),
                         calls @ calls'))))"

section \<open>The Gateway (service A)\<close>

text \<open>
  The body of the Resolver's response reaches the Gateway as the result of
  \<^verbatim>\<open>io.ReadAll(resp.Body)\<close>: the bytes, or the error of the read.

  \<^verbatim>\<open>func forwardToServiceB(ctx context.Context, cep string, w http.ResponseWriter) error\<close>
  returns its error (\<open>None\<close> for \<^verbatim>\<open>nil\<close>), the writer and the calls it has made.
\<close>

type_synonym stream = "string + chunk list"

definition forwardToServiceB ::
    "stream Env \<Rightarrow> string \<Rightarrow> ResponseWriter \<Rightarrow> string option \<times> ResponseWriter \<times> Request list" where
  "forwardToServiceB env cep w =
     (let serviceBURL = (if Getenv env ''SERVICE_B_URL'' = [] then ''http://localhost:8081''
                         else Getenv env ''SERVICE_B_URL'');
          payload = \<lparr>CEP = cep\<rparr>;
          jsonData = Marshal_CEPRequest payload in
      case NewRequestWithContext env ''POST'' (serviceBURL @ ''/weather'') jsonData of
        Inl err \<Rightarrow> (Some (''failed to create request: '' @ err), w, [])
      | Inr req0 \<Rightarrow>
          (let req = req0\<lparr>Header := Set_header ''Content-Type'' ''application/json'' (Header req0)\<rparr> in
           case Do env req of
             Inl err \<Rightarrow> (Some (''failed to make request to Service B: '' @ err), w, [req])
           | Inr resp \<Rightarrow>
               (let w = Header_Set ''Content-Type'' ''application/json'' w;
                    w = WriteHeader (StatusCode resp) w in
                case RespBody resp of
                  Inl err \<Rightarrow> (Some (''failed to read response body: '' @ err), w, [req])
                | Inr body \<Rightarrow> (None, Write body w, [req]))))"

text \<open>\<^verbatim>\<open>func handleCEP(w http.ResponseWriter, r *http.Request)\<close>\<close>

definition handleCEP :: "stream Env \<Rightarrow> ResponseWriter \<Rightarrow> Request \<Rightarrow> ResponseWriter \<times> Request list" where
  "handleCEP env w r =
     (if Method r \<noteq> ''POST'' then (http_Error w ''Method not allowed'' 405, [])
      else
        case Decode_CEPRequest (Body r) of
          Inl err \<Rightarrow> (writeErrorResponse w ''invalid request body'' 400, [])
        | Inr req \<Rightarrow>
            if \<not> isValidCEP (CEP req) then (writeErrorResponse w ''invalid zipcode'' 422, [])
            else
              (case forwardToServiceB env (CEP req) w of
                 (Some err, w', calls) \<Rightarrow>
                   (writeErrorResponse w' ''internal server error'' 500, calls)
               | (None, w', calls) \<Rightarrow> (w', calls)))"

section \<open>The two services together\<close>

text \<open>
  The Gateway's call, answered by the Resolver: the Resolver's \<^verbatim>\<open>/weather\<close> handler
  runs on the request the Gateway sends, on a fresh writer, and what it serves comes
  back as the response of \<^verbatim>\<open>client.Do\<close>, its body read whole. The calls the Resolver
  makes are not among the Gateway's own.
\<close>

definition service_b :: "payload Env \<Rightarrow> Request \<Rightarrow> string + stream Response" where
  "service_b envB req =
     (case served (fst (handleWeather envB new_ResponseWriter req)) of
        None \<Rightarrow> Inl ''EOF''
      | Some resp \<Rightarrow>
          Inr \<lparr>StatusCode = StatusCode resp, RespHeader = RespHeader resp,
               RespBody = Inr (RespBody resp)\<rparr>)"

section \<open>Stub providers\<close>

text \<open>
  Environments for running the services on concrete inputs. \<open>providers key viacep weather\<close>
  is a Resolver environment whose weather credential is \<open>key\<close>, which accepts every URL,
  and whose client answers a request to the location provider with \<open>viacep\<close> and any other
  request with \<open>weather\<close>.
\<close>

definition providers :: "string option \<Rightarrow> (string + payload Response) \<Rightarrow>
    (string + payload Response) \<Rightarrow> payload Env" where
  "providers key viacep weather =
     \<lparr>environ = (\<lambda>name. if name = ''WEATHER_API_KEY'' then key else None),
      url_error = (\<lambda>url. None),
      Do = (\<lambda>req. if take 22 (URL req) = ''https://viacep.com.br/'' then viacep else weather)\<rparr>"

definition ok :: "json \<Rightarrow> string + payload Response" where
  "ok v = Inr \<lparr>StatusCode = 200, RespHeader = [], RespBody = Doc v\<rparr>"

definition Sao_Paulo :: string where
  "Sao_Paulo = ''S'' @ [CHR 0xC3, CHR 0xA3] @ ''o Paulo''"

definition viacep_Sao_Paulo :: json where
  "viacep_Sao_Paulo =
     JObject [(''cep'', JString ''01001-000''), (''localidade'', JString Sao_Paulo), (''uf'', JString ''SP'')]"

definition viacep_erro :: json where
  "viacep_erro = JObject [(''erro'', JBool True)]"

text \<open>The member \<^verbatim>\<open>erro\<close> as a string, which is not a Go \<^verbatim>\<open>bool\<close>.\<close>

definition viacep_erro_text :: json where
  "viacep_erro_text = JObject [(''erro'', JString ''true'')]"

definition garbled :: "string + payload Response" where
  "garbled = Inr \<lparr>StatusCode = 200, RespHeader = [], RespBody = Malformed ''unexpected end of JSON input''\<rparr>"

text \<open>A provider whose body stops arriving: the client's timeout ends the read.\<close>

definition cut_off :: "string + payload Response" where
  "cut_off = Inr \<lparr>StatusCode = 200, RespHeader = [],
     RespBody = ReadError ''context deadline exceeded (Client.Timeout or context cancellation while reading body)''\<rparr>"

definition unavailable :: "string + payload Response" where
  "unavailable = Inr \<lparr>StatusCode = 503, RespHeader = [], RespBody = NoBody\<rparr>"

text \<open>A weather provider whose Fahrenheit reading does not agree with its Celsius reading.\<close>

definition weather_25 :: json where
  "weather_25 =
     JObject [(''location'', JObject [(''name'', JString ''Sao Paulo''), (''country'', JString ''Brazil'')]),
              (''current'', JObject [(''temp_c'', JNumber False 25 0), (''temp_f'', JNumber False 80 0)])]"

text \<open>A weather provider that reports the temperature \<^verbatim>\<open>1e308\<close>.\<close>

definition weather_1e308 :: json where
  "weather_1e308 =
     JObject [(''location'', JObject [(''name'', JString ''Sao Paulo'')]),
              (''current'', JObject [(''temp_c'', JNumber False 10 307)])]"

definition post :: "json \<Rightarrow> Request" where
  "post v = \<lparr>Method = ''POST'', URL = ''/'', Header = [], Body = Doc v\<rparr>"

definition post_cep :: "string \<Rightarrow> Request" where
  "post_cep cep = post (JObject [(''cep'', JString cep)])"

text \<open>A Gateway environment whose downstream is the Resolver in the environment \<open>envB\<close>.\<close>

definition gateway_of :: "payload Env \<Rightarrow> stream Env" where
  "gateway_of envB = \<lparr>environ = (\<lambda>name. None), url_error = (\<lambda>url. None), Do = service_b envB\<rparr>"

text \<open>A Gateway environment whose downstream call gives \<open>answer\<close>.\<close>

definition downstream :: "(string + stream Response) \<Rightarrow> stream Env" where
  "downstream answer = \<lparr>environ = (\<lambda>name. None), url_error = (\<lambda>url. None), Do = (\<lambda>req. answer)\<rparr>"

section \<open>The services as the client sees them\<close>

text \<open>
  The server runs a handler on a fresh writer. \<open>Resolver env r\<close> and \<open>Gateway env r\<close> give
  the response the client of the \<^verbatim>\<open>/weather\<close> and of the \<^verbatim>\<open>/cep\<close> endpoint receives for
  the request \<open>r\<close>, and the external calls made on the way.
\<close>

definition Resolver :: "payload Env \<Rightarrow> Request \<Rightarrow> chunk list Response option \<times> Request list" where
  "Resolver env r = (served (fst (handleWeather env new_ResponseWriter r)), snd (handleWeather env new_ResponseWriter r))"

definition Gateway :: "stream Env \<Rightarrow> Request \<Rightarrow> chunk list Response option \<times> Request list" where
  "Gateway env r = (served (fst (handleCEP env new_ResponseWriter r)), snd (handleCEP env new_ResponseWriter r))"

text \<open>The outcome the specification writes as a message at a status.\<close>

definition error_response :: "int \<Rightarrow> string \<Rightarrow> chunk list Response" where
  "error_response code message =
     \<lparr>StatusCode = code, RespHeader = [(''Content-Type'', ''application/json'')],
      RespBody = [Encoded_ErrorResponse \<lparr>Message = message\<rparr>]\<rparr>"

definition weather_response :: "WeatherResponse \<Rightarrow> chunk list Response" where
  "weather_response weather =
     \<lparr>StatusCode = 200, RespHeader = [(''Content-Type'', ''application/json'')],
      RespBody = [Encoded_WeatherResponse weather]\<rparr>"

text \<open>The requests of the two lookups and of the Gateway's downstream call.\<close>

definition location_request :: "string \<Rightarrow> Request" where
  "location_request cep =
     \<lparr>Method = ''GET'', URL = ''https://viacep.com.br/ws/'' @ cep @ ''/json/'', Header = [], Body = NoBody\<rparr>"

definition weather_request :: "string \<Rightarrow> string \<Rightarrow> Request" where
  "weather_request key location =
     \<lparr>Method = ''GET'',
      URL = ''http://api.weatherapi.com/v1/current.json?key='' @ key @ ''&q='' @ QueryEscape location @ ''&aqi=no'',
      Header = [], Body = NoBody\<rparr>"

definition resolver_request :: "string \<Rightarrow> string \<Rightarrow> Request" where
  "resolver_request base cep =
     \<lparr>Method = ''POST'', URL = base @ ''/weather'', Header = [(''Content-Type'', ''application/json'')],
      Body = Doc (JObject [(''cep'', JString cep)])\<rparr>"

definition serviceBURL :: "stream Env \<Rightarrow> string" where
  "serviceBURL env =
     (if Getenv env ''SERVICE_B_URL'' = [] then ''http://localhost:8081'' else Getenv env ''SERVICE_B_URL'')"

text \<open>
  The weather credential counts as not configured when the variable is absent, empty, or
  the placeholder.
\<close>

definition no_credential :: "payload Env \<Rightarrow> bool" where
  "no_credential env =
     (environ env ''WEATHER_API_KEY'' = None \<or> environ env ''WEATHER_API_KEY'' = Some []
      \<or> environ env ''WEATHER_API_KEY'' = Some ''your_weather_api_key_here'')"

text \<open>
  The ways a lookup can fail. \<open>Network_error\<close>: the client's call \<^verbatim>\<open>client.Do\<close> returns an
  error. \<open>Non_success_status\<close>: the provider answers with a status other than 200.
  \<open>Body_read_error\<close>: the status is 200 and the read of the body fails, which the
  client's timeout covers too. \<open>Undecodable_body\<close>: the status is 200 and the body was
  read whole but does not decode, being empty, not JSON, or of the wrong type.
  \<open>Not_found_flag\<close>: the body decodes and its member \<^verbatim>\<open>erro\<close> is true. \<open>Bad_request\<close>: the
  client library refuses to build the request.
\<close>

datatype failure =
  Bad_request | Network_error | Non_success_status | Body_read_error | Undecodable_body | Not_found_flag

fun read_failed :: "payload \<Rightarrow> bool" where
  "read_failed (ReadError err) = True"
| "read_failed body = False"

definition location_failure :: "payload Env \<Rightarrow> string \<Rightarrow> failure option" where
  "location_failure env cep =
     (case url_error env (URL (location_request cep)) of
        Some err \<Rightarrow> Some Bad_request
      | None \<Rightarrow>
          (case Do env (location_request cep) of
             Inl err \<Rightarrow> Some Network_error
           | Inr resp \<Rightarrow>
               if StatusCode resp \<noteq> 200 then Some Non_success_status
               else (case Decode_ViaCEPResponse (RespBody resp) of
                       Inl err \<Rightarrow> Some (if read_failed (RespBody resp) then Body_read_error
                                        else Undecodable_body)
                     | Inr v \<Rightarrow> if Erro v then Some Not_found_flag else None)))"

definition weather_failure :: "payload Env \<Rightarrow> string \<Rightarrow> failure option" where
  "weather_failure env location =
     (if no_credential env then None
      else
        case url_error env (URL (weather_request (Getenv env ''WEATHER_API_KEY'') location)) of
          Some err \<Rightarrow> Some Bad_request
        | None \<Rightarrow>
            (case Do env (weather_request (Getenv env ''WEATHER_API_KEY'') location) of
               Inl err \<Rightarrow> Some Network_error
             | Inr resp \<Rightarrow>
                 if StatusCode resp \<noteq> 200 then Some Non_success_status
                 else (case Decode_WeatherAPIResponse (RespBody resp) of
                         Inl err \<Rightarrow> Some (if read_failed (RespBody resp) then Body_read_error
                                          else Undecodable_body)
                       | Inr v \<Rightarrow> None)))"

text \<open>
  A body that is a JSON object without a usable code: every member whose key selects the
  field \<^verbatim>\<open>cep\<close> holds the empty string or \<^verbatim>\<open>null\<close>. The empty object is one.
\<close>

fun lacks_code :: "payload \<Rightarrow> bool" where
  "lacks_code (Doc (JObject members)) =
     list_all (\<lambda>kv. find_field [''cep''] (fst kv) = None \<or> snd kv = JString [] \<or> snd kv = JNull) members"
| "lacks_code body = False"

section \<open>Properties of the validation\<close>

lemma perl_digit_iff: "perl_digit c \<longleftrightarrow> c \<in> set ''0123456789''"
proof
  assume pd: "perl_digit c"
  define n where "n = (of_char c :: nat)"
  from pd have "48 \<le> n \<and> n \<le> 57"
    by (simp add: perl_digit_def n_def)
  then have "n = of_char CHR ''0'' \<or> n = of_char CHR ''1'' \<or> n = of_char CHR ''2''
      \<or> n = of_char CHR ''3'' \<or> n = of_char CHR ''4'' \<or> n = of_char CHR ''5''
      \<or> n = of_char CHR ''6'' \<or> n = of_char CHR ''7'' \<or> n = of_char CHR ''8''
      \<or> n = of_char CHR ''9''"
    by (simp; arith)
  then show "c \<in> set ''0123456789''"
    unfolding n_def of_char_eq_iff by auto
next
  assume "c \<in> set ''0123456789''"
  then show "perl_digit c"
    by (auto simp: perl_digit_def)
qed

lemma ends_Repeat_PerlDigit:
  "i \<le> length s \<Longrightarrow> ends (Repeat n PerlDigit) s i =
     (if i + n \<le> length s \<and> (\<forall>k < n. perl_digit (s ! (i + k))) then [i + n] else [])"
proof (induction n)
  case 0
  then show ?case by simp
next
  case (Suc n)
  have less_Suc: "(\<forall>k < Suc n. perl_digit (s ! (i + k))) \<longleftrightarrow>
      (\<forall>k < n. perl_digit (s ! (i + k))) \<and> perl_digit (s ! (i + n))"
    by (auto simp: less_Suc_eq)
  have "ends (Repeat (Suc n) PerlDigit) s i =
      concat (map (ends PerlDigit s) (ends (Repeat n PerlDigit) s i))"
    by simp
  also have "\<dots> = (if i + Suc n \<le> length s \<and> (\<forall>k < Suc n. perl_digit (s ! (i + k)))
      then [i + Suc n] else [])"
    unfolding Suc.IH [OF Suc.prems] less_Suc by auto
  finally show ?case .
qed

lemma ends_cep_pattern:
  "ends cep_pattern s i =
     (if i = 0 \<and> length s = 8 \<and> (\<forall>k < 8. perl_digit (s ! k)) then [8] else [])"
proof (cases "i = 0")
  case True
  have "ends cep_pattern s 0 = concat (map (ends EndText s) (ends (Repeat 8 PerlDigit) s 0))"
    unfolding cep_pattern_def by (simp only: ends.simps(1,4)) simp
  also have "\<dots> = (if length s = 8 \<and> (\<forall>k < 8. perl_digit (s ! k)) then [8] else [])"
    using ends_Repeat_PerlDigit [of 0 s 8] by auto
  finally show ?thesis using True by simp
next
  case False
  then show ?thesis
    unfolding cep_pattern_def by (simp only: ends.simps(1,4)) simp
qed

lemma MatchString_cep_pattern:
  "MatchString cep_pattern s \<longleftrightarrow> length s = 8 \<and> (\<forall>k < 8. perl_digit (s ! k))"
  unfolding MatchString_def list_ex_iff ends_cep_pattern
  by auto

text \<open>
  Claim C1. For every input string, \<open>isValidCEP\<close> (the same function in the Gateway and in
  the Resolver) accepts if and only if the string consists of exactly 8 ASCII decimal
  digits; every other string (wrong length, any other character, empty) is rejected.
\<close>

theorem isValidCEP_iff_eight_digits:
  "isValidCEP s \<longleftrightarrow> eight_ascii_digits s"
proof -
  have "length s = 8 \<Longrightarrow> (\<forall>k < 8. perl_digit (s ! k)) \<longleftrightarrow> list_all perl_digit s"
    by (auto simp: list_all_length)
  then show ?thesis
    unfolding isValidCEP_def MatchString_cep_pattern eight_ascii_digits_def
    by (auto simp: perl_digit_iff [abs_def])
qed

theorem isValidCEP_iff_eight_digits_witness:
  "isValidCEP ''01001000'' \<and> eight_ascii_digits ''01001000''
   \<and> \<not> isValidCEP ''123'' \<and> \<not> eight_ascii_digits ''123''
   \<and> \<not> isValidCEP [] \<and> \<not> isValidCEP ''0100100a'' \<and> \<not> isValidCEP ''010010000''"
  using isValidCEP_iff_eight_digits [of "''01001000''"]
    isValidCEP_iff_eight_digits [of "''123''"]
    isValidCEP_iff_eight_digits [of "[]"]
    isValidCEP_iff_eight_digits [of "''0100100a''"]
    isValidCEP_iff_eight_digits [of "''010010000''"]
  by (simp add: eight_ascii_digits_def)

section \<open>The response writer, the decoders and the lookups\<close>

text \<open>The validation in a form that evaluates on a literal.\<close>

lemma isValidCEP_digits: "isValidCEP s \<longleftrightarrow> length s = 8 \<and> list_all perl_digit s"
proof -
  have "length s = 8 \<Longrightarrow> (\<forall>k < 8. perl_digit (s ! k)) \<longleftrightarrow> list_all perl_digit s"
    by (auto simp: list_all_length)
  then show ?thesis
    unfolding isValidCEP_def MatchString_cep_pattern by auto
qed

lemmas writer_defs = writeErrorResponse_def Header_Set_def WriteHeader_def Write_def served_def
  new_ResponseWriter_def Set_header_def http_Error_def Encode_WeatherResponse_def

lemma served_writeErrorResponse:
  "200 \<le> code \<Longrightarrow> code \<le> 999 \<Longrightarrow>
   served (writeErrorResponse new_ResponseWriter message code) = Some (error_response code message)"
  by (simp add: writer_defs error_response_def Let_def)

lemma served_weather:
  "served (Encode_WeatherResponse weather
       (WriteHeader 200 (Header_Set ''Content-Type'' ''application/json'' new_ResponseWriter))) =
   Some (if is_finite (TempC weather) \<and> is_finite (TempF weather) \<and> is_finite (TempK weather)
         then weather_response weather
         else (weather_response weather)\<lparr>RespBody := []\<rparr>)"
  by (simp add: writer_defs weather_response_def Let_def)

lemma Decode_CEPRequest_post_cep: "Decode_CEPRequest (Body (post_cep cep)) = Inr \<lparr>CEP = cep\<rparr>"
  by (simp add: post_cep_def post_def Decode_CEPRequest_def Decode_def struct_value_def
      member_CEPRequest_def find_field_def into_field_def store_string_def zero_CEPRequest_def)

text \<open>What the location lookup returns, by the way it fails.\<close>

lemma getLocationFromCEP_failure:
  "location_failure env cep = Some f \<Longrightarrow>
   \<exists>err. getLocationFromCEP env cep =
     (Inl (case f of
             Bad_request \<Rightarrow> ''failed to create request: '' @ err
           | Network_error \<Rightarrow> ''failed to make request to ViaCEP: '' @ err
           | Non_success_status \<Rightarrow> ''ViaCEP returned status '' @ err
           | Body_read_error \<Rightarrow> ''can not find zipcode''
           | Undecodable_body \<Rightarrow> ''can not find zipcode''
           | Not_found_flag \<Rightarrow> ''can not find zipcode''),
      if f = Bad_request then [] else [location_request cep])"
  by (auto simp: location_failure_def getLocationFromCEP_def NewRequestWithContext_def
      location_request_def Let_def split: option.splits sum.splits if_splits)

lemma getLocationFromCEP_success:
  "location_failure env cep = None \<Longrightarrow>
   \<exists>location. getLocationFromCEP env cep = (Inr location, [location_request cep])"
  by (auto simp: location_failure_def getLocationFromCEP_def NewRequestWithContext_def
      location_request_def Let_def split: option.splits sum.splits if_splits)

lemma handleWeather_valid:
  assumes "Method r = ''POST''" and "Decode_CEPRequest (Body r) = Inr req" and "isValidCEP (CEP req)"
  shows "handleWeather env w r =
     (case getLocationFromCEP env (CEP req) of
        (Inl err, calls) \<Rightarrow>
          (if err = ''CEP not found'' \<or> err = ''can not find zipcode''
           then writeErrorResponse w ''can not find zipcode'' 404
           else writeErrorResponse w ''internal server error'' 500,
           calls)
      | (Inr location, calls) \<Rightarrow>
          (case getWeatherFromAPI env location of
             (Inl err, calls') \<Rightarrow>
               (writeErrorResponse w ''internal server error'' 500, calls @ calls')
           | (Inr weather, calls') \<Rightarrow>
               (Encode_WeatherResponse weather
                  (WriteHeader 200 (Header_Set ''Content-Type'' ''application/json'' w)),
                calls @ calls')))"
  using assms by (simp add: handleWeather_def)

text \<open>The response of the Resolver, by the way the location lookup fails.\<close>

lemma location_failure_status:
  assumes "Method r = ''POST''" and "Decode_CEPRequest (Body r) = Inr req" and "isValidCEP (CEP req)"
    and "location_failure env (CEP req) = Some f"
  shows "fst (Resolver env r) =
     Some (if f = Body_read_error \<or> f = Undecodable_body \<or> f = Not_found_flag
           then error_response 404 ''can not find zipcode''
           else error_response 500 ''internal server error'')"
proof -
  from getLocationFromCEP_failure [OF assms(4)] obtain err where
    loc: "getLocationFromCEP env (CEP req) =
     (Inl (case f of
             Bad_request \<Rightarrow> ''failed to create request: '' @ err
           | Network_error \<Rightarrow> ''failed to make request to ViaCEP: '' @ err
           | Non_success_status \<Rightarrow> ''ViaCEP returned status '' @ err
           | Body_read_error \<Rightarrow> ''can not find zipcode''
           | Undecodable_body \<Rightarrow> ''can not find zipcode''
           | Not_found_flag \<Rightarrow> ''can not find zipcode''),
      if f = Bad_request then [] else [location_request (CEP req)])"
    by blast
  show ?thesis
    unfolding Resolver_def handleWeather_valid [OF assms(1-3)] loc
    by (cases f) (simp_all add: served_writeErrorResponse)
qed

section \<open>The conversions on concrete temperatures\<close>

text \<open>The number of bits of a numeral, read off its binary digits.\<close>

lemma bit_length_numeral:
  "bit_length (numeral (num.Bit0 k)) = bit_length (numeral k) + 1"
  "bit_length (numeral (num.Bit1 k)) = bit_length (numeral k) + 1"
  "bit_length (numeral num.One) = 1"
  "bit_length 0 = 0"
  "bit_length 1 = 1"
proof -
  have "numeral (num.Bit0 k) div (2::nat) = numeral k"
    by (simp add: numeral_Bit0_div_2)
  then show "bit_length (numeral (num.Bit0 k)) = bit_length (numeral k) + 1"
    by (subst bit_length.simps) simp
  have "numeral (num.Bit1 k) div (2::nat) = numeral k"
    by (simp add: numeral_Bit1_div_2)
  then show "bit_length (numeral (num.Bit1 k)) = bit_length (numeral k) + 1"
    by (subst bit_length.simps) simp
  show "bit_length (numeral num.One) = 1"
    by (subst bit_length.simps, subst bit_length.simps) simp
  show "bit_length 0 = 0"
    by (subst bit_length.simps) simp
  show "bit_length 1 = 1"
    by (subst bit_length.simps, subst bit_length.simps) simp
qed

lemmas float_eval = celsiusToFahrenheit_def celsiusToKelvin_def celsiusToFahrenheit_fused_def
  decimal_def scaled_def exact_sum_def round64_def floor_log2_def round_half_even_def signed_def
  bit_length_numeral

text \<open>The constants of the source, as binary64 numbers.\<close>

lemma constant_1_8: "decimal False 18 (- 1) = Finite False 8106479329266893 (- 52)"
  by (simp add: float_eval)

lemma constant_32: "decimal False 32 0 = Finite False 4503599627370496 (- 47)"
  by (simp add: float_eval)

lemma constant_273_15: "decimal False 27315 (- 2) = Finite False 4805305618032230 (- 44)"
  by (simp add: float_eval)

lemma mock_Fahrenheit: "celsiusToFahrenheit (decimal False 225 (- 1)) = decimal False 725 (- 1)"
  by (simp add: float_eval)

lemma mock_Kelvin: "celsiusToKelvin (decimal False 225 (- 1)) = decimal False 29565 (- 2)"
  by (simp add: float_eval)

lemma mock_finite:
  "is_finite (decimal False 225 (- 1))" "is_finite (decimal False 725 (- 1))"
  "is_finite (decimal False 29565 (- 2))"
  by (simp_all add: is_finite_def float_eval)

lemma conversions_25:
  "celsiusToFahrenheit (decimal False 25 0) = decimal False 77 0"
  "celsiusToKelvin (decimal False 25 0) = decimal False 29815 (- 2)"
  "celsiusToFahrenheit_fused (decimal False 25 0) = decimal False 77 0"
  by (simp_all add: float_eval)

lemma conversions_0:
  "celsiusToFahrenheit (decimal False 0 0) = decimal False 32 0"
  "celsiusToKelvin (decimal False 0 0) = decimal False 27315 (- 2)"
  "celsiusToFahrenheit_fused (decimal False 0 0) = decimal False 32 0"
  by (simp_all add: float_eval)

text \<open>The sum of 0.1 and 0.2 is the float64 next above 0.3, as on any IEEE 754 machine.\<close>

lemma tenth_plus_fifth:
  "fadd (decimal False 1 (- 1)) (decimal False 2 (- 1)) = Finite False 5404319552844596 (- 54)"
  "decimal False 3 (- 1) = Finite False 5404319552844595 (- 54)"
  by (simp_all add: float_eval)

section \<open>The Resolver's outcomes\<close>

lemma Getenv_no_credential:
  "no_credential env \<longleftrightarrow>
   Getenv env ''WEATHER_API_KEY'' = [] \<or> Getenv env ''WEATHER_API_KEY'' = ''your_weather_api_key_here''"
  by (auto simp: no_credential_def Getenv_def split: option.splits)

text \<open>What the weather lookup returns when it fails, and when it does not.\<close>

lemma getWeatherFromAPI_failure:
  "weather_failure env location = Some f \<Longrightarrow> \<exists>err. fst (getWeatherFromAPI env location) = Inl err"
  by (auto simp: weather_failure_def getWeatherFromAPI_def NewRequestWithContext_def
      weather_request_def Getenv_no_credential Let_def split: option.splits sum.splits if_splits)

lemma getWeatherFromAPI_success:
  "weather_failure env location = None \<Longrightarrow> \<exists>weather. fst (getWeatherFromAPI env location) = Inr weather"
  by (auto simp: weather_failure_def getWeatherFromAPI_def NewRequestWithContext_def
      weather_request_def Getenv_no_credential Let_def split: option.splits sum.splits if_splits)

lemma getWeatherFromAPI_consistent:
  "fst (getWeatherFromAPI env location) = Inr weather \<Longrightarrow>
   TempF weather = celsiusToFahrenheit (TempC weather) \<and> TempK weather = celsiusToKelvin (TempC weather)"
  by (auto simp: getWeatherFromAPI_def Let_def split: option.splits sum.splits if_splits)

lemma getWeatherFromAPI_mock:
  assumes "no_credential env"
  shows "getWeatherFromAPI env location =
      (Inr \<lparr>City = location, TempC = decimal False 225 (- 1),
            TempF = celsiusToFahrenheit (decimal False 225 (- 1)),
            TempK = celsiusToKelvin (decimal False 225 (- 1))\<rparr>, [])"
  using assms unfolding Getenv_no_credential
  by (simp add: getWeatherFromAPI_def Let_def)

text \<open>The stub providers, decoded.\<close>

lemma Decode_viacep_Sao_Paulo:
  "Decode_ViaCEPResponse (Doc viacep_Sao_Paulo) =
   Inr (zero_ViaCEPResponse\<lparr>ViaCEP_CEP := ''01001-000'', Localidade := Sao_Paulo, UF := ''SP''\<rparr>)"
  by (simp add: viacep_Sao_Paulo_def Decode_ViaCEPResponse_def Decode_def struct_value_def
      member_ViaCEPResponse_def ViaCEP_names_def find_field_def into_field_def store_string_def
      zero_ViaCEPResponse_def)

lemma Decode_viacep_erro:
  "Decode_ViaCEPResponse (Doc viacep_erro) = Inr (zero_ViaCEPResponse\<lparr>Erro := True\<rparr>)"
  by (simp add: viacep_erro_def Decode_ViaCEPResponse_def Decode_def struct_value_def
      member_ViaCEPResponse_def ViaCEP_names_def find_field_def into_field_def store_bool_def)

lemma Decode_viacep_erro_text:
  "Decode_ViaCEPResponse (Doc viacep_erro_text) =
   Inl ''json: cannot unmarshal string into Go struct field ViaCEPResponse.erro of type bool''"
  by (simp add: viacep_erro_text_def Decode_ViaCEPResponse_def Decode_def struct_value_def
      member_ViaCEPResponse_def ViaCEP_names_def find_field_def into_field_def store_bool_def
      saveError_def UnmarshalTypeError_def)

lemma Decode_empty_object:
  "Decode_ViaCEPResponse (Doc (JObject [])) = Inr zero_ViaCEPResponse"
  by (simp add: Decode_ViaCEPResponse_def Decode_def struct_value_def)

lemma getLocation_Sao_Paulo:
  "getLocationFromCEP (providers key (ok viacep_Sao_Paulo) weather) ''01001000'' =
     (Inr Sao_Paulo, [location_request ''01001000''])"
  by (simp add: getLocationFromCEP_def NewRequestWithContext_def providers_def ok_def
      Decode_viacep_Sao_Paulo location_request_def zero_ViaCEPResponse_def Let_def)

lemma getLocation_empty_object:
  "getLocationFromCEP (providers key (ok (JObject [])) weather) ''01001000'' =
     (Inr [], [location_request ''01001000''])"
  by (simp add: getLocationFromCEP_def NewRequestWithContext_def providers_def ok_def
      Decode_empty_object location_request_def zero_ViaCEPResponse_def Let_def)

lemma url_error_providers: "url_error (providers key viacep weather) url = None"
  by (simp add: providers_def)

lemma Getenv_providers:
  "Getenv (providers key viacep weather) ''WEATHER_API_KEY'' = (case key of None \<Rightarrow> [] | Some k \<Rightarrow> k)"
  by (simp add: Getenv_def providers_def)

lemma Do_providers_weather: "Do (providers key viacep weather) (weather_request k location) = weather"
  by (simp add: providers_def weather_request_def)

lemma Do_providers_location: "Do (providers key viacep weather) (location_request cep) = viacep"
  by (simp add: providers_def location_request_def)

lemma valid_01001000: "isValidCEP ''01001000''"
  by (simp add: isValidCEP_digits perl_digit_def)

lemma valid_99999999: "isValidCEP ''99999999''"
  by (simp add: isValidCEP_digits perl_digit_def)

lemma Method_post_cep: "Method (post_cep cep) = ''POST''"
  by (simp add: post_cep_def post_def)

text \<open>
  Claim C2, as the specification states it: every failure of the location lookup other
  than the provider's not-found flag gives \<^verbatim>\<open>internal server error\<close> at status 500. It
  fails for a body that was read whole and does not decode: \<^verbatim>\<open>getLocationFromCEP\<close>
  returns the error \<^verbatim>\<open>can not find zipcode\<close> for it, and the handler answers 404. Shown
  for a body that is not JSON and for the member \<^verbatim>\<open>erro\<close> sent as a string.
\<close>

theorem undecodable_body_is_not_500:
  "location_failure (providers None garbled (Inl [])) ''01001000'' = Some Undecodable_body
   \<and> fst (Resolver (providers None garbled (Inl [])) (post_cep ''01001000''))
       = Some (error_response 404 ''can not find zipcode'')
   \<and> fst (Resolver (providers None garbled (Inl [])) (post_cep ''01001000''))
       \<noteq> Some (error_response 500 ''internal server error'')
   \<and> location_failure (providers None (ok viacep_erro_text) (Inl [])) ''01001000'' = Some Undecodable_body
   \<and> fst (Resolver (providers None (ok viacep_erro_text) (Inl [])) (post_cep ''01001000''))
       = Some (error_response 404 ''can not find zipcode'')"
proof -
  have f1: "location_failure (providers None garbled (Inl [])) ''01001000'' = Some Undecodable_body"
    by (simp add: location_failure_def providers_def garbled_def location_request_def
        Decode_ViaCEPResponse_def Decode_def)
  have f2: "location_failure (providers None (ok viacep_erro_text) (Inl [])) ''01001000''
      = Some Undecodable_body"
    by (simp add: location_failure_def providers_def ok_def location_request_def
        Decode_viacep_erro_text)
  show ?thesis
    using location_failure_status [OF Method_post_cep Decode_CEPRequest_post_cep, of "''01001000''"
        "providers None garbled (Inl [])" Undecodable_body]
      location_failure_status [OF Method_post_cep Decode_CEPRequest_post_cep, of "''01001000''"
        "providers None (ok viacep_erro_text) (Inl [])" Undecodable_body]
    by (simp add: f1 f2 valid_01001000 error_response_def)
qed

text \<open>
  Claim C2, amended. When the client's call to the location provider returns an error,
  when the provider answers with a status other than 200, or when the request cannot be
  built, the Resolver answers \<^verbatim>\<open>internal server error\<close> at status 500; when the
  provider's body at status 200 was read whole and does not decode, it answers
  \<^verbatim>\<open>can not find zipcode\<close> at status 404, as for the not-found flag. A read of the body
  that fails (\<open>Body_read_error\<close>) is a case of its own, of which the statement says
  nothing.
\<close>

theorem location_failure_500_or_404:
  assumes "Method r = ''POST''" and "Decode_CEPRequest (Body r) = Inr req" and "isValidCEP (CEP req)"
    and "location_failure env (CEP req) = Some f"
  shows "(f = Bad_request \<or> f = Network_error \<or> f = Non_success_status \<longrightarrow>
            fst (Resolver env r) = Some (error_response 500 ''internal server error''))
       \<and> (f = Undecodable_body \<longrightarrow>
            fst (Resolver env r) = Some (error_response 404 ''can not find zipcode''))"
  using location_failure_status [OF assms] by auto

theorem location_failure_500_or_404_witness:
  "location_failure (providers None (Inl ''context deadline exceeded'') (Inl [])) ''01001000''
     = Some Network_error
   \<and> fst (Resolver (providers None (Inl ''context deadline exceeded'') (Inl [])) (post_cep ''01001000''))
     = Some (error_response 500 ''internal server error'')
   \<and> location_failure (providers None unavailable (Inl [])) ''01001000'' = Some Non_success_status
   \<and> fst (Resolver (providers None unavailable (Inl [])) (post_cep ''01001000''))
     = Some (error_response 500 ''internal server error'')"
proof -
  have f1: "location_failure (providers None (Inl ''context deadline exceeded'') (Inl [])) ''01001000''
      = Some Network_error"
    by (simp add: location_failure_def providers_def location_request_def)
  have f2: "location_failure (providers None unavailable (Inl [])) ''01001000'' = Some Non_success_status"
    by (simp add: location_failure_def providers_def unavailable_def location_request_def)
  show ?thesis
    using location_failure_500_or_404 [OF Method_post_cep Decode_CEPRequest_post_cep, of "''01001000''"
        "providers None (Inl ''context deadline exceeded'') (Inl [])" Network_error]
      location_failure_500_or_404 [OF Method_post_cep Decode_CEPRequest_post_cep, of "''01001000''"
        "providers None unavailable (Inl [])" Non_success_status]
    by (simp add: f1 f2 valid_01001000)
qed

text \<open>
  The remaining case: when the read of the provider's body fails at status 200, the
  decoder returns the reader's error, which \<^verbatim>\<open>getLocationFromCEP\<close> does not tell from a
  syntax error.
\<close>

lemma body_read_error_status:
  assumes "Method r = ''POST''" and "Decode_CEPRequest (Body r) = Inr req" and "isValidCEP (CEP req)"
    and "location_failure env (CEP req) = Some Body_read_error"
  shows "fst (Resolver env r) = Some (error_response 404 ''can not find zipcode'')"
  using location_failure_status [OF assms] by simp

lemma location_failure_cut_off:
  "location_failure (providers None cut_off (Inl [])) ''01001000'' = Some Body_read_error"
  by (simp add: location_failure_def providers_def cut_off_def location_request_def
      Decode_ViaCEPResponse_def Decode_def)

text \<open>
  Claim C3. When the weather credential is absent from the environment, empty, or the
  placeholder, the weather lookup makes no external call and returns, for any city, a
  result with that city, the Celsius temperature 22.5 and its conversions, which are 72.5
  and 295.65.
\<close>

theorem mock_weather:
  assumes "no_credential env"
  shows "getWeatherFromAPI env location =
      (Inr \<lparr>City = location, TempC = decimal False 225 (- 1),
            TempF = celsiusToFahrenheit (decimal False 225 (- 1)),
            TempK = celsiusToKelvin (decimal False 225 (- 1))\<rparr>, [])
    \<and> celsiusToFahrenheit (decimal False 225 (- 1)) = decimal False 725 (- 1)
    \<and> celsiusToKelvin (decimal False 225 (- 1)) = decimal False 29565 (- 2)"
  using getWeatherFromAPI_mock [OF assms] by (simp add: mock_Fahrenheit mock_Kelvin)

text \<open>
  The witness is the example of the specification: code 01001000, a location provider
  that answers with the city, no credential. The only call is the location lookup.
\<close>

theorem mock_weather_witness:
  "no_credential (providers None (ok viacep_Sao_Paulo) (Inl []))
   \<and> Resolver (providers None (ok viacep_Sao_Paulo) (Inl [])) (post_cep ''01001000'') =
      (Some (weather_response \<lparr>City = Sao_Paulo, TempC = decimal False 225 (- 1),
                TempF = decimal False 725 (- 1), TempK = decimal False 29565 (- 2)\<rparr>),
       [location_request ''01001000''])"
proof -
  have nc: "no_credential (providers None (ok viacep_Sao_Paulo) (Inl []))"
    by (simp add: no_credential_def providers_def)
  show ?thesis
    using nc mock_weather [OF nc, of Sao_Paulo]
    by (simp add: Resolver_def handleWeather_valid [OF Method_post_cep Decode_CEPRequest_post_cep]
        valid_01001000 getLocation_Sao_Paulo served_weather mock_finite)
qed

text \<open>
  Claim C5. For a valid code for which the location provider answers with success status
  and its not-found flag set, the Resolver answers \<^verbatim>\<open>can not find zipcode\<close> at status
  404, and the location lookup is the only call it makes: no weather lookup is attempted.
\<close>

theorem not_found_404:
  assumes "Method r = ''POST''" and "Decode_CEPRequest (Body r) = Inr req" and "isValidCEP (CEP req)"
    and "url_error env (URL (location_request (CEP req))) = None"
    and "Do env (location_request (CEP req)) = Inr resp"
    and "StatusCode resp = 200"
    and "Decode_ViaCEPResponse (RespBody resp) = Inr v" and "Erro v"
  shows "Resolver env r =
     (Some (error_response 404 ''can not find zipcode''), [location_request (CEP req)])"
proof -
  have "getLocationFromCEP env (CEP req) = (Inl ''can not find zipcode'', [location_request (CEP req)])"
    using assms(4-8)
    by (simp add: getLocationFromCEP_def NewRequestWithContext_def location_request_def Let_def)
  then show ?thesis
    unfolding Resolver_def handleWeather_valid [OF assms(1-3)]
    by (simp add: served_writeErrorResponse)
qed

theorem not_found_404_witness:
  "isValidCEP ''99999999''
   \<and> Do (providers (Some ''key'') (ok viacep_erro) (Inl [])) (location_request ''99999999'') = ok viacep_erro
   \<and> Decode_ViaCEPResponse (Doc viacep_erro) = Inr (zero_ViaCEPResponse\<lparr>Erro := True\<rparr>)
   \<and> Resolver (providers (Some ''key'') (ok viacep_erro) (Inl [])) (post_cep ''99999999'') =
       (Some (error_response 404 ''can not find zipcode''), [location_request ''99999999''])"
proof -
  have call: "Do (providers (Some ''key'') (ok viacep_erro) (Inl [])) (location_request (CEP \<lparr>CEP = ''99999999''\<rparr>))
      = Inr \<lparr>StatusCode = 200, RespHeader = [], RespBody = Doc viacep_erro\<rparr>"
    by (simp add: providers_def location_request_def ok_def)
  have url: "url_error (providers (Some ''key'') (ok viacep_erro) (Inl []))
      (URL (location_request (CEP \<lparr>CEP = ''99999999''\<rparr>))) = None"
    by (simp add: providers_def)
  have "Resolver (providers (Some ''key'') (ok viacep_erro) (Inl [])) (post_cep ''99999999'') =
       (Some (error_response 404 ''can not find zipcode''), [location_request (CEP \<lparr>CEP = ''99999999''\<rparr>)])"
    by (rule not_found_404 [OF Method_post_cep Decode_CEPRequest_post_cep _ url call,
          where v = "zero_ViaCEPResponse\<lparr>Erro := True\<rparr>"])
      (simp_all add: valid_99999999 Decode_viacep_erro)
  with call show ?thesis
    by (simp add: valid_99999999 Decode_viacep_erro ok_def)
qed

text \<open>
  Claim C6. When the location is resolved and the weather lookup fails, whatever the
  cause (network error, non-success status of the provider, a body that does not
  decode), the Resolver answers \<^verbatim>\<open>internal server error\<close> at status 500.
\<close>

theorem weather_failure_500:
  assumes "Method r = ''POST''" and "Decode_CEPRequest (Body r) = Inr req" and "isValidCEP (CEP req)"
    and "fst (getLocationFromCEP env (CEP req)) = Inr location"
    and "weather_failure env location = Some f \<or> fst (getWeatherFromAPI env location) = Inl err"
  shows "fst (Resolver env r) = Some (error_response 500 ''internal server error'')"
proof -
  from assms(5) obtain err' where "fst (getWeatherFromAPI env location) = Inl err'"
    using getWeatherFromAPI_failure by blast
  with assms(4) show ?thesis
    unfolding Resolver_def handleWeather_valid [OF assms(1-3)]
    by (cases "getLocationFromCEP env (CEP req)"; cases "getWeatherFromAPI env location")
      (simp add: served_writeErrorResponse)
qed

theorem weather_failure_500_witness:
  "fst (getLocationFromCEP (providers (Some ''key'') (ok viacep_Sao_Paulo) unavailable) ''01001000'')
     = Inr Sao_Paulo
   \<and> weather_failure (providers (Some ''key'') (ok viacep_Sao_Paulo) unavailable) Sao_Paulo
     = Some Non_success_status
   \<and> weather_failure (providers (Some ''key'') (ok viacep_Sao_Paulo) (Inl ''connection refused'')) Sao_Paulo
     = Some Network_error
   \<and> weather_failure (providers (Some ''key'') (ok viacep_Sao_Paulo) garbled) Sao_Paulo
     = Some Undecodable_body
   \<and> fst (Resolver (providers (Some ''key'') (ok viacep_Sao_Paulo) unavailable) (post_cep ''01001000''))
     = Some (error_response 500 ''internal server error'')
   \<and> fst (Resolver (providers (Some ''key'') (ok viacep_Sao_Paulo) (Inl ''connection refused''))
        (post_cep ''01001000''))
     = Some (error_response 500 ''internal server error'')
   \<and> fst (Resolver (providers (Some ''key'') (ok viacep_Sao_Paulo) garbled) (post_cep ''01001000''))
     = Some (error_response 500 ''internal server error'')"
proof -
  have cred: "\<not> no_credential (providers (Some ''key'') viacep weather)" for viacep weather
    by (simp add: no_credential_def providers_def)
  have key: "Getenv (providers (Some ''key'') viacep weather) ''WEATHER_API_KEY'' = ''key''" for viacep weather
    by (simp add: Getenv_def providers_def)
  have w1: "weather_failure (providers (Some ''key'') (ok viacep_Sao_Paulo) unavailable) Sao_Paulo
     = Some Non_success_status"
    by (simp add: weather_failure_def cred key url_error_providers Do_providers_weather unavailable_def)
  have w2: "weather_failure (providers (Some ''key'') (ok viacep_Sao_Paulo) (Inl ''connection refused'')) Sao_Paulo
     = Some Network_error"
    by (simp add: weather_failure_def cred key url_error_providers Do_providers_weather)
  have w3: "weather_failure (providers (Some ''key'') (ok viacep_Sao_Paulo) garbled) Sao_Paulo
     = Some Undecodable_body"
    by (simp add: weather_failure_def cred key url_error_providers Do_providers_weather garbled_def
        Decode_WeatherAPIResponse_def Decode_def)
  have loc: "fst (getLocationFromCEP (providers (Some ''key'') (ok viacep_Sao_Paulo) weather)
      (CEP \<lparr>CEP = ''01001000''\<rparr>)) = Inr Sao_Paulo" for weather
    by (simp add: getLocation_Sao_Paulo)
  have valid: "isValidCEP (CEP \<lparr>CEP = ''01001000''\<rparr>)"
    by (simp add: valid_01001000)
  show ?thesis
    using weather_failure_500 [OF Method_post_cep Decode_CEPRequest_post_cep valid loc disjI1, OF w1]
      weather_failure_500 [OF Method_post_cep Decode_CEPRequest_post_cep valid loc disjI1, OF w2]
      weather_failure_500 [OF Method_post_cep Decode_CEPRequest_post_cep valid loc disjI1, OF w3]
    by (simp add: w1 w2 w3 getLocation_Sao_Paulo)
qed

section \<open>The Gateway's outcomes\<close>

text \<open>The handlers read the method and the body of a request, and nothing else of it.\<close>

lemma Resolver_cong:
  "Method r = Method r' \<Longrightarrow> Body r = Body r' \<Longrightarrow> Resolver env r = Resolver env r'"
  by (simp add: Resolver_def handleWeather_def)

lemma Decode_CEPRequest_resolver_request:
  "Decode_CEPRequest (Body (resolver_request base cep)) = Inr \<lparr>CEP = cep\<rparr>"
  by (simp add: resolver_request_def Decode_CEPRequest_def Decode_def struct_value_def
      member_CEPRequest_def find_field_def into_field_def store_string_def zero_CEPRequest_def)

lemma Resolver_resolver_request: "Resolver env (resolver_request base cep) = Resolver env (post_cep cep)"
  by (rule Resolver_cong) (simp_all add: resolver_request_def post_cep_def post_def)

text \<open>
  To a POST the Resolver always answers, with the content type of JSON; to a POST with a
  valid code it answers with status 200, 404 or 500.
\<close>

lemma Resolver_POST:
  assumes "Method r = ''POST''"
  shows "\<exists>code body. fst (Resolver env r) =
      Some \<lparr>StatusCode = code, RespHeader = [(''Content-Type'', ''application/json'')], RespBody = body\<rparr>
    \<and> code \<in> {200, 400, 404, 422, 500}"
  using assms
  by (auto simp: Resolver_def handleWeather_def served_writeErrorResponse served_weather
      error_response_def weather_response_def split: sum.splits prod.splits)

lemma Resolver_valid:
  assumes "Method r = ''POST''" and "Decode_CEPRequest (Body r) = Inr req" and "isValidCEP (CEP req)"
  shows "\<exists>code body. fst (Resolver env r) =
      Some \<lparr>StatusCode = code, RespHeader = [(''Content-Type'', ''application/json'')], RespBody = body\<rparr>
    \<and> code \<in> {200, 404, 500}"
  unfolding Resolver_def handleWeather_valid [OF assms]
  by (auto simp: served_writeErrorResponse served_weather
      error_response_def weather_response_def split: sum.splits prod.splits)

text \<open>
  The relay, for any answer of the downstream call with a final status code and a body
  that is read whole: the status code and the body are passed on; the content type is
  set to that of JSON, not copied.
\<close>

lemma Gateway_relay:
  assumes "Method r = ''POST''" and "Decode_CEPRequest (Body r) = Inr req" and "isValidCEP (CEP req)"
    and "url_error env (serviceBURL env @ ''/weather'') = None"
    and "Do env (resolver_request (serviceBURL env) (CEP req)) =
      Inr \<lparr>StatusCode = code, RespHeader = h, RespBody = Inr body\<rparr>"
    and "200 \<le> code" and "code \<le> 999"
  shows "Gateway env r =
     (Some \<lparr>StatusCode = code, RespHeader = [(''Content-Type'', ''application/json'')], RespBody = body\<rparr>,
      [resolver_request (serviceBURL env) (CEP req)])"
  using assms
  by (simp add: Gateway_def handleCEP_def forwardToServiceB_def serviceBURL_def resolver_request_def
      NewRequestWithContext_def Marshal_CEPRequest_def Set_header_def Let_def writer_defs)

lemma Gateway_bad_url:
  assumes "Method r = ''POST''" and "Decode_CEPRequest (Body r) = Inr req" and "isValidCEP (CEP req)"
    and "url_error env (serviceBURL env @ ''/weather'') = Some err"
  shows "Gateway env r = (Some (error_response 500 ''internal server error''), [])"
  using assms
  by (simp add: Gateway_def handleCEP_def forwardToServiceB_def serviceBURL_def
      NewRequestWithContext_def Let_def served_writeErrorResponse)

text \<open>The Gateway in front of the Resolver passes on what the Resolver answers.\<close>

lemma gateway_forwards:
  assumes "Method r = ''POST''" and "Decode_CEPRequest (Body r) = Inr req" and "isValidCEP (CEP req)"
    and "url_error envA (serviceBURL envA @ ''/weather'') = None"
    and "Do envA = service_b envB"
  shows "Gateway envA r =
     (fst (Resolver envB (resolver_request (serviceBURL envA) (CEP req))),
      [resolver_request (serviceBURL envA) (CEP req)])"
proof -
  have "Method (resolver_request (serviceBURL envA) (CEP req)) = ''POST''"
    by (simp add: resolver_request_def)
  from Resolver_POST [OF this] obtain code body where
    resp: "fst (Resolver envB (resolver_request (serviceBURL envA) (CEP req))) =
      Some \<lparr>StatusCode = code, RespHeader = [(''Content-Type'', ''application/json'')], RespBody = body\<rparr>"
    and code: "code \<in> {200, 400, 404, 422, 500}"
    by blast
  from resp have "Do envA (resolver_request (serviceBURL envA) (CEP req)) =
      Inr \<lparr>StatusCode = code, RespHeader = [(''Content-Type'', ''application/json'')], RespBody = Inr body\<rparr>"
    by (simp add: assms(5) service_b_def Resolver_def)
  moreover from code have "200 \<le> code" and "code \<le> 999"
    by auto
  ultimately show ?thesis
    using Gateway_relay [OF assms(1-4)] resp by simp
qed

text \<open>
  Claim C7. For every POST body that parses but whose code fails the 8-digit rule, the
  Gateway answers \<^verbatim>\<open>invalid zipcode\<close> at status 422 and makes no downstream call.
\<close>

theorem gateway_invalid_422:
  assumes "Method r = ''POST''" and "Decode_CEPRequest (Body r) = Inr req" and "\<not> isValidCEP (CEP req)"
  shows "Gateway env r = (Some (error_response 422 ''invalid zipcode''), [])"
  using assms by (simp add: Gateway_def handleCEP_def served_writeErrorResponse)

theorem gateway_invalid_422_witness:
  "Method (post_cep ''123'') = ''POST''
   \<and> Decode_CEPRequest (Body (post_cep ''123'')) = Inr \<lparr>CEP = ''123''\<rparr>
   \<and> \<not> isValidCEP (CEP \<lparr>CEP = ''123''\<rparr>)
   \<and> Gateway (downstream (Inl [])) (post_cep ''123'') = (Some (error_response 422 ''invalid zipcode''), [])"
proof -
  have invalid: "\<not> isValidCEP (CEP \<lparr>CEP = ''123''\<rparr>)"
    by (simp add: isValidCEP_digits)
  show ?thesis
    using invalid gateway_invalid_422 [OF Method_post_cep Decode_CEPRequest_post_cep invalid]
    by (simp add: Decode_CEPRequest_post_cep Method_post_cep)
qed

text \<open>
  Claim C8. Every response of the Resolver that the Gateway's downstream call obtains
  reaches the client unchanged: the same status code, the same content type, the same
  body. Here the downstream call is answered by the Resolver itself, in any environment.
\<close>

theorem gateway_relays_resolver:
  assumes "Method r = ''POST''" and "Decode_CEPRequest (Body r) = Inr req" and "isValidCEP (CEP req)"
    and "url_error envA (serviceBURL envA @ ''/weather'') = None"
    and "Do envA = service_b envB"
  shows "Gateway envA r =
     (fst (Resolver envB (resolver_request (serviceBURL envA) (CEP req))),
      [resolver_request (serviceBURL envA) (CEP req)])"
  by (rule gateway_forwards [OF assms])

text \<open>
  The witness is the end-to-end example of the specification: code 01001000, the city
  from the location provider, no weather credential.
\<close>

theorem gateway_relays_resolver_witness:
  "Do (gateway_of (providers None (ok viacep_Sao_Paulo) (Inl []))) =
     service_b (providers None (ok viacep_Sao_Paulo) (Inl []))
   \<and> Gateway (gateway_of (providers None (ok viacep_Sao_Paulo) (Inl []))) (post_cep ''01001000'') =
      (Some (weather_response \<lparr>City = Sao_Paulo, TempC = decimal False 225 (- 1),
                TempF = decimal False 725 (- 1), TempK = decimal False 29565 (- 2)\<rparr>),
       [resolver_request ''http://localhost:8081'' ''01001000''])"
proof -
  have nc: "no_credential (providers None (ok viacep_Sao_Paulo) (Inl []))"
    by (simp add: no_credential_def providers_def)
  have base: "serviceBURL (gateway_of envB) = ''http://localhost:8081''" for envB
    by (simp add: serviceBURL_def Getenv_def gateway_of_def)
  have url: "url_error (gateway_of envB) (serviceBURL (gateway_of envB) @ ''/weather'') = None" for envB
    by (simp add: gateway_of_def)
  have down: "Do (gateway_of envB) = service_b envB" for envB
    by (simp add: gateway_of_def)
  have valid: "isValidCEP (CEP \<lparr>CEP = ''01001000''\<rparr>)"
    by (simp add: valid_01001000)
  have "Resolver (providers None (ok viacep_Sao_Paulo) (Inl [])) (post_cep ''01001000'') =
      (Some (weather_response \<lparr>City = Sao_Paulo, TempC = decimal False 225 (- 1),
                TempF = decimal False 725 (- 1), TempK = decimal False 29565 (- 2)\<rparr>),
       [location_request ''01001000''])"
    using getWeatherFromAPI_mock [OF nc, of Sao_Paulo]
    by (simp add: Resolver_def handleWeather_valid [OF Method_post_cep Decode_CEPRequest_post_cep]
        valid_01001000 getLocation_Sao_Paulo served_weather mock_finite mock_Fahrenheit mock_Kelvin)
  then show ?thesis
    using gateway_relays_resolver [OF Method_post_cep Decode_CEPRequest_post_cep valid url down,
        of "providers None (ok viacep_Sao_Paulo) (Inl [])"]
    by (simp add: base down Resolver_resolver_request)
qed

section \<open>The success response and the requests without a code\<close>

lemma Decode_weather_25:
  "Decode_WeatherAPIResponse (Doc weather_25) =
   Inr \<lparr>Location = \<lparr>Name = ''Sao Paulo'', Region = [], Country = ''Brazil''\<rparr>,
        Current = \<lparr>Current_TempC = decimal False 25 0, Current_TempF = decimal False 80 0\<rparr>\<rparr>"
  by (simp add: weather_25_def Decode_WeatherAPIResponse_def Decode_def struct_value_def
      member_WeatherAPIResponse_def member_Location_def member_Current_def find_field_def
      into_field_def store_string_def store_float64_def zero_WeatherAPIResponse_def zero_float64_def
      is_finite_def float_eval)

lemma served_http_Error:
  "200 \<le> code \<Longrightarrow> code \<le> 999 \<Longrightarrow>
   served (http_Error new_ResponseWriter err code) =
     Some \<lparr>StatusCode = code,
           RespHeader = [(''X-Content-Type-Options'', ''nosniff''),
                         (''Content-Type'', ''text/plain; charset=utf-8'')],
           RespBody = [Bytes (err @ [CHR 0x0A])]\<rparr>"
  by (simp add: writer_defs Let_def)

text \<open>Every response of the Resolver's weather endpoint is one of these.\<close>

lemma Resolver_outcomes:
  "(\<exists>code message. fst (Resolver env r) = Some (error_response code message)
        \<and> code \<in> {400, 404, 422, 500})
   \<or> StatusCode (the (fst (Resolver env r))) = 405
   \<or> (\<exists>location weather. fst (getWeatherFromAPI env location) = Inr weather
        \<and> fst (Resolver env r) =
            Some (if is_finite (TempC weather) \<and> is_finite (TempF weather) \<and> is_finite (TempK weather)
                  then weather_response weather
                  else (weather_response weather)\<lparr>RespBody := []\<rparr>))"
proof (cases "Method r = ''POST''")
  case False
  then show ?thesis
    by (simp add: Resolver_def handleWeather_def served_http_Error)
next
  case post: True
  show ?thesis
  proof (cases "Decode_CEPRequest (Body r)")
    case (Inl err)
    with post show ?thesis
      by (simp add: Resolver_def handleWeather_def served_writeErrorResponse) blast
  next
    case (Inr req)
    show ?thesis
    proof (cases "isValidCEP (CEP req)")
      case False
      with post Inr show ?thesis
        by (simp add: Resolver_def handleWeather_def served_writeErrorResponse) blast
    next
      case True
      obtain loc calls where loc: "getLocationFromCEP env (CEP req) = (loc, calls)"
        by (cases "getLocationFromCEP env (CEP req)")
      show ?thesis
      proof (cases loc)
        case (Inl err)
        with loc show ?thesis
          unfolding Resolver_def handleWeather_valid [OF post Inr True]
          by (simp add: served_writeErrorResponse) blast
      next
        case location: (Inr location)
        obtain res calls' where res: "getWeatherFromAPI env location = (res, calls')"
          by (cases "getWeatherFromAPI env location")
        show ?thesis
        proof (cases res)
          case (Inl err)
          with loc location res show ?thesis
            unfolding Resolver_def handleWeather_valid [OF post Inr True]
            by (simp add: served_writeErrorResponse) blast
        next
          case weather: (Inr weather)
          have "fst (getWeatherFromAPI env location) = Inr weather"
            by (simp add: res weather)
          moreover have "fst (Resolver env r) =
              Some (if is_finite (TempC weather) \<and> is_finite (TempF weather) \<and> is_finite (TempK weather)
                    then weather_response weather
                    else (weather_response weather)\<lparr>RespBody := []\<rparr>)"
            unfolding Resolver_def handleWeather_valid [OF post Inr True]
            by (simp add: loc location res weather served_weather)
          ultimately show ?thesis
            by blast
        qed
      qed
    qed
  qed
qed

text \<open>
  Claim C9, as the specification states it: every success response carries a result whose
  city is not empty. It fails when the location provider answers with an object that has
  no \<^verbatim>\<open>localidade\<close>: the city is the empty string, and the status is 200.
\<close>

theorem empty_city_at_status_200:
  "fst (Resolver (providers None (ok (JObject [])) (Inl [])) (post_cep ''01001000'')) =
     Some (weather_response \<lparr>City = [], TempC = decimal False 225 (- 1),
             TempF = decimal False 725 (- 1), TempK = decimal False 29565 (- 2)\<rparr>)
   \<and> StatusCode (weather_response \<lparr>City = [], TempC = decimal False 225 (- 1),
             TempF = decimal False 725 (- 1), TempK = decimal False 29565 (- 2)\<rparr>) = 200"
proof -
  have nc: "no_credential (providers None (ok (JObject [])) (Inl []))"
    by (simp add: no_credential_def providers_def)
  show ?thesis
    using getWeatherFromAPI_mock [OF nc, of "[]"]
    by (simp add: Resolver_def handleWeather_valid [OF Method_post_cep Decode_CEPRequest_post_cep]
        valid_01001000 getLocation_empty_object served_weather mock_finite mock_Fahrenheit mock_Kelvin
        weather_response_def)
qed

text \<open>
  Claim C9, amended. Every response of the Resolver's weather endpoint with status 200
  and a body carries one weather result, whose Fahrenheit and Kelvin temperatures are the
  conversions of its Celsius temperature, with the provider's credential and without it;
  the Fahrenheit reading of the provider is not used. The city may be empty. A response
  with status 200 and no body exists as well; the last section shows one.
\<close>

theorem success_response_consistent:
  assumes "fst (Resolver env r) = Some resp" and "StatusCode resp = 200" and "RespBody resp \<noteq> []"
  shows "\<exists>weather. resp = weather_response weather
     \<and> TempF weather = celsiusToFahrenheit (TempC weather)
     \<and> TempK weather = celsiusToKelvin (TempC weather)"
  using Resolver_outcomes [of env r] assms
  by (auto simp: error_response_def weather_response_def dest: getWeatherFromAPI_consistent
      split: if_splits)

theorem success_response_consistent_witness:
  "fst (Resolver (providers (Some ''key'') (ok viacep_Sao_Paulo) (ok weather_25)) (post_cep ''01001000'')) =
     Some (weather_response \<lparr>City = ''Sao Paulo'', TempC = decimal False 25 0,
             TempF = decimal False 77 0, TempK = decimal False 29815 (- 2)\<rparr>)
   \<and> TempF \<lparr>City = ''Sao Paulo'', TempC = decimal False 25 0,
             TempF = decimal False 77 0, TempK = decimal False 29815 (- 2)\<rparr>
      = celsiusToFahrenheit (decimal False 25 0)
   \<and> TempK \<lparr>City = ''Sao Paulo'', TempC = decimal False 25 0,
             TempF = decimal False 77 0, TempK = decimal False 29815 (- 2)\<rparr>
      = celsiusToKelvin (decimal False 25 0)"
proof -
  let ?env = "providers (Some ''key'') (ok viacep_Sao_Paulo) (ok weather_25)"
  let ?w = "\<lparr>City = ''Sao Paulo'', TempC = decimal False 25 0,
             TempF = decimal False 77 0, TempK = decimal False 29815 (- 2)\<rparr>"
  have F: "celsiusToFahrenheit (decimal False 25 0) = decimal False 77 0"
    by (simp add: float_eval)
  have K: "celsiusToKelvin (decimal False 25 0) = decimal False 29815 (- 2)"
    by (simp add: float_eval)
  have fin: "is_finite (decimal False 25 0)" "is_finite (decimal False 77 0)"
      "is_finite (decimal False 29815 (- 2))"
    by (simp_all add: is_finite_def float_eval)
  have "getWeatherFromAPI ?env Sao_Paulo = (Inr ?w, [weather_request ''key'' Sao_Paulo])"
    by (simp add: getWeatherFromAPI_def Getenv_def NewRequestWithContext_def providers_def ok_def
        Decode_weather_25 F K weather_request_def Let_def)
  then have resp: "fst (Resolver ?env (post_cep ''01001000'')) = Some (weather_response ?w)"
    by (simp add: Resolver_def handleWeather_valid [OF Method_post_cep Decode_CEPRequest_post_cep]
        valid_01001000 getLocation_Sao_Paulo served_weather fin)
  have "StatusCode (weather_response ?w) = 200" and "RespBody (weather_response ?w) \<noteq> []"
    by (simp_all add: weather_response_def)
  from success_response_consistent [OF resp this] resp show ?thesis
    by (auto simp: weather_response_def F K)
qed

text \<open>A body without a usable code decodes, to the empty code.\<close>

lemma object_lacks_code:
  "list_all (\<lambda>kv. find_field [''cep''] (fst kv) = None \<or> snd kv = JString [] \<or> snd kv = JNull) members
   \<Longrightarrow> object member_CEPRequest members (zero_CEPRequest, None) = (zero_CEPRequest, None)"
proof (induction members)
  case Nil
  then show ?case by simp
next
  case (Cons kv members)
  then have "member_CEPRequest (fst kv) (snd kv) (zero_CEPRequest, None) = (zero_CEPRequest, None)"
    by (auto simp: member_CEPRequest_def into_field_def store_string_def zero_CEPRequest_def
        split: option.splits)
  with Cons show ?case
    by simp
qed

lemma Decode_lacks_code: "lacks_code body \<Longrightarrow> Decode_CEPRequest body = Inr zero_CEPRequest"
  by (cases body rule: lacks_code.cases)
    (simp_all add: Decode_CEPRequest_def Decode_def struct_value_def object_lacks_code)

lemma invalid_empty: "\<not> isValidCEP (CEP zero_CEPRequest)"
  by (simp add: isValidCEP_digits zero_CEPRequest_def)

lemma Resolver_400_iff:
  assumes "Method r = ''POST''"
  shows "fst (Resolver env r) = Some (error_response 400 ''invalid request body'')
     \<longleftrightarrow> isl (Decode_CEPRequest (Body r))"
proof (cases "Decode_CEPRequest (Body r)")
  case (Inl err)
  with assms show ?thesis
    by (simp add: Resolver_def handleWeather_def served_writeErrorResponse)
next
  case (Inr req)
  show ?thesis
  proof (cases "isValidCEP (CEP req)")
    case False
    with assms Inr show ?thesis
      by (simp add: Resolver_def handleWeather_def served_writeErrorResponse error_response_def)
  next
    case True
    from Resolver_valid [OF assms Inr True, of env] Inr show ?thesis
      by (auto simp: error_response_def)
  qed
qed

text \<open>
  Claim C10. A POST whose body is a JSON object without a usable code (the empty object,
  no \<^verbatim>\<open>cep\<close> member, or an empty one) is answered with \<^verbatim>\<open>invalid zipcode\<close> at status 422
  by the Gateway and by the Resolver, with no call made. The answer
  \<^verbatim>\<open>invalid request body\<close> at status 400 is given exactly when the decoding of the body
  fails: by the Resolver in any environment, by the Gateway in front of the Resolver.
\<close>

theorem missing_code_422:
  assumes "Method r = ''POST''"
  shows "(lacks_code (Body r) \<longrightarrow>
            Gateway envA r = (Some (error_response 422 ''invalid zipcode''), [])
          \<and> Resolver envB r = (Some (error_response 422 ''invalid zipcode''), []))
     \<and> (fst (Resolver envB r) = Some (error_response 400 ''invalid request body'')
          \<longleftrightarrow> isl (Decode_CEPRequest (Body r)))
     \<and> (Do envA = service_b envB \<longrightarrow>
          (fst (Gateway envA r) = Some (error_response 400 ''invalid request body'')
            \<longleftrightarrow> isl (Decode_CEPRequest (Body r))))"
proof (intro conjI impI)
  assume "lacks_code (Body r)"
  then have dec: "Decode_CEPRequest (Body r) = Inr zero_CEPRequest"
    by (rule Decode_lacks_code)
  from assms dec show "Gateway envA r = (Some (error_response 422 ''invalid zipcode''), [])"
    by (simp add: Gateway_def handleCEP_def invalid_empty served_writeErrorResponse)
  from assms dec show "Resolver envB r = (Some (error_response 422 ''invalid zipcode''), [])"
    by (simp add: Resolver_def handleWeather_def invalid_empty served_writeErrorResponse)
next
  show "fst (Resolver envB r) = Some (error_response 400 ''invalid request body'')
      \<longleftrightarrow> isl (Decode_CEPRequest (Body r))"
    by (rule Resolver_400_iff [OF assms])
next
  assume down: "Do envA = service_b envB"
  show "fst (Gateway envA r) = Some (error_response 400 ''invalid request body'')
      \<longleftrightarrow> isl (Decode_CEPRequest (Body r))"
  proof (cases "Decode_CEPRequest (Body r)")
    case (Inl err)
    with assms show ?thesis
      by (simp add: Gateway_def handleCEP_def served_writeErrorResponse)
  next
    case (Inr req)
    show ?thesis
    proof (cases "isValidCEP (CEP req)")
      case False
      with assms Inr show ?thesis
        by (simp add: Gateway_def handleCEP_def served_writeErrorResponse error_response_def)
    next
      case True
      show ?thesis
      proof (cases "url_error envA (serviceBURL envA @ ''/weather'')")
        case (Some err)
        from Gateway_bad_url [OF assms Inr True Some] Inr show ?thesis
          by (simp add: error_response_def)
      next
        case None
        have "Method (resolver_request (serviceBURL envA) (CEP req)) = ''POST''"
          by (simp add: resolver_request_def)
        from Resolver_valid [OF this Decode_CEPRequest_resolver_request, of envB] True
          gateway_forwards [OF assms Inr True None down] Inr
        show ?thesis
          by (auto simp: error_response_def)
      qed
    qed
  qed
qed

theorem missing_code_422_witness:
  "Method (post (JObject [])) = ''POST'' \<and> lacks_code (Body (post (JObject [])))
   \<and> Gateway (downstream (Inl [])) (post (JObject [])) = (Some (error_response 422 ''invalid zipcode''), [])
   \<and> Resolver (providers None (Inl []) (Inl [])) (post (JObject [])) =
       (Some (error_response 422 ''invalid zipcode''), [])
   \<and> lacks_code (Body (post (JObject [(''cep'', JString [])])))
   \<and> Gateway (downstream (Inl [])) (post (JObject [(''cep'', JString [])])) =
       (Some (error_response 422 ''invalid zipcode''), [])
   \<and> lacks_code (Body (post (JObject [(''zip'', JString ''01001000'')])))
   \<and> Resolver (providers None (Inl []) (Inl [])) (post (JObject [(''zip'', JString ''01001000'')])) =
       (Some (error_response 422 ''invalid zipcode''), [])"
proof -
  have m: "Method (post v) = ''POST''" for v
    by (simp add: post_def)
  have l1: "lacks_code (Body (post (JObject [])))"
    by (simp add: post_def)
  have l2: "lacks_code (Body (post (JObject [(''cep'', JString [])])))"
    by (simp add: post_def)
  have l3: "lacks_code (Body (post (JObject [(''zip'', JString ''01001000'')])))"
    by (simp add: post_def find_field_def fold_byte_def)
  show ?thesis
    using missing_code_422 [OF m, of "JObject []" "downstream (Inl [])" "providers None (Inl []) (Inl [])"]
      missing_code_422 [OF m, of "JObject [(''cep'', JString [])]" "downstream (Inl [])"
        "providers None (Inl []) (Inl [])"]
      missing_code_422 [OF m, of "JObject [(''zip'', JString ''01001000'')]" "downstream (Inl [])"
        "providers None (Inl []) (Inl [])"]
    by (simp add: m l1 l2 l3)
qed

section \<open>The accuracy of the float64 operations\<close>

text \<open>
  Each operation with a finite result returns the exact result rounded: the error is at
  most half a unit in the last place, which is at most \<open>2 powi (- 53)\<close> times the exact
  result for a normal number, and \<open>2 powi (- 1075)\<close> below the normal range.
\<close>

lemma bit_length_0: "bit_length 0 = 0"
  by (subst bit_length.simps) simp

lemma bit_length_pos: "0 < n \<Longrightarrow> bit_length n = Suc (bit_length (n div 2))"
  by (subst bit_length.simps) simp

lemma bit_length_bounds:
  "0 < n \<Longrightarrow> 2 ^ (bit_length n - 1) \<le> n \<and> n < 2 ^ bit_length n"
proof (induction n rule: less_induct)
  case (less n)
  note bl = bit_length_pos [OF less.prems]
  show ?case
  proof (cases "n div 2 = 0")
    case True
    with less.prems have "n = 1" by arith
    then show ?thesis
      unfolding bl by (simp add: bit_length_0)
  next
    case False
    then have pos: "0 < n div 2" by simp
    have "n div 2 < n" using less.prems by simp
    from less.IH [OF this pos] have
      lo: "2 ^ (bit_length (n div 2) - 1) \<le> n div 2" and hi: "n div 2 < 2 ^ bit_length (n div 2)"
      by simp_all
    have "(2::nat) ^ bit_length (n div 2) = 2 * 2 ^ (bit_length (n div 2) - 1)"
      unfolding bit_length_pos [OF pos] by simp
    with lo have "2 ^ bit_length (n div 2) \<le> 2 * (n div 2)"
      by simp
    also have "\<dots> \<le> n"
      by simp
    finally have low: "2 ^ bit_length (n div 2) \<le> n" .
    from hi have "Suc (n div 2) \<le> 2 ^ bit_length (n div 2)"
      by simp
    then have "2 * Suc (n div 2) \<le> 2 * 2 ^ bit_length (n div 2)"
      by (simp only: mult_le_mono2)
    moreover have "n < 2 * Suc (n div 2)"
      by arith
    ultimately have "n < 2 * 2 ^ bit_length (n div 2)"
      by (rule less_le_trans [rotated])
    with low show ?thesis
      unfolding bl by simp
  qed
qed

lemma round_half_even_error:
  assumes "0 < d"
  shows "\<bar>real (round_half_even n d) - real n / real d\<bar> \<le> 1 / 2"
proof -
  define f r where "f = n div d" and "r = n mod d"
  have n: "real n = real f * real d + real r"
    unfolding f_def r_def by (metis of_nat_add of_nat_mult div_mult_mod_eq)
  have r: "r < d"
    unfolding r_def using assms by simp
  have q: "real n / real d = real f + real r / real d"
    unfolding n using assms by (simp add: field_simps)
  define x where "x = real r / real d"
  have x: "0 \<le> x" "x < 1"
    unfolding x_def using r assms by simp_all
  consider (lo) "2 * r < d" | (hi) "d < 2 * r" | (tie) "2 * r = d"
    by arith
  then show ?thesis
  proof cases
    case lo
    then have "real (2 * r) < real d"
      by (simp only: of_nat_less_iff)
    then have "x < 1 / 2"
      unfolding x_def using assms by (simp add: field_simps)
    moreover have "round_half_even n d = f"
      using lo by (simp add: round_half_even_def f_def r_def Let_def)
    ultimately show ?thesis
      unfolding q x_def [symmetric] using x by simp
  next
    case hi
    then have "real d < real (2 * r)"
      by (simp only: of_nat_less_iff)
    then have "1 / 2 < x"
      unfolding x_def using assms by (simp add: field_simps)
    moreover have "round_half_even n d = f + 1"
      using hi by (simp add: round_half_even_def f_def r_def Let_def)
    ultimately show ?thesis
      unfolding q x_def [symmetric] using x by simp
  next
    case tie
    then have "real (2 * r) = real d"
      by (simp only: of_nat_eq_iff)
    then have "x = 1 / 2"
      unfolding x_def using assms by (simp add: field_simps)
    moreover have "round_half_even n d = f \<or> round_half_even n d = f + 1"
      using tie by (simp add: round_half_even_def f_def r_def Let_def)
    ultimately show ?thesis
      unfolding q x_def [symmetric] by auto
  qed
qed


lemma bit_length_real:
  assumes "0 < n"
  shows "2 powi (int (bit_length n) - 1) \<le> real n" and "real n < 2 powi (int (bit_length n))"
proof -
  define k where "k = bit_length (n div 2)"
  have bl: "bit_length n = Suc k"
    unfolding k_def by (rule bit_length_pos [OF assms])
  from bit_length_bounds [OF assms] have lo: "2 ^ k \<le> n" and hi: "n < 2 ^ Suc k"
    unfolding bl by simp_all
  from lo have "real (2 ^ k) \<le> real n"
    by (simp only: of_nat_le_iff)
  then have "(2::real) ^ k \<le> real n"
    by simp
  moreover have "int (Suc k) - 1 = int k"
    by simp
  ultimately show "2 powi (int (bit_length n) - 1) \<le> real n"
    unfolding bl by (simp only: power_int_of_nat)
  from hi have "real n < real (2 ^ Suc k)"
    by (simp only: of_nat_less_iff)
  then have "real n < (2::real) ^ Suc k"
    by simp
  then show "real n < 2 powi (int (bit_length n))"
    unfolding bl by (simp only: power_int_of_nat)
qed

lemma pw_add: "(2::real) powi (a + b) = 2 powi a * 2 powi b"
  by (rule power_int_add) simp

lemma pw_pos: "0 < (2::real) powi a"
  by simp

lemma pw_nat: "0 \<le> d \<Longrightarrow> (2::real) ^ nat d = 2 powi d"
  by (simp add: power_int_nonneg_exp)

lemma pw_neg: "(2::real) powi (- d) * 2 powi d = 1"
  using pw_add [of "- d" d] by simp

lemma floor_log2_test:
  assumes "0 < q"
  shows "(if 0 \<le> d then q * 2 ^ nat d \<le> p else q \<le> p * 2 ^ nat (- d))
     \<longleftrightarrow> real q * 2 powi d \<le> real p"
proof (cases "0 \<le> d")
  case True
  have "q * 2 ^ nat d \<le> p \<longleftrightarrow> real (q * 2 ^ nat d) \<le> real p"
    by (simp only: of_nat_le_iff)
  also have "real (q * 2 ^ nat d) = real q * 2 ^ nat d"
    by simp
  also have "(2::real) ^ nat d = 2 powi d"
    using True by (rule pw_nat)
  finally show ?thesis
    using True by simp
next
  case False
  then have nonneg: "0 \<le> - d" by simp
  have "q \<le> p * 2 ^ nat (- d) \<longleftrightarrow> real q \<le> real (p * 2 ^ nat (- d))"
    by (simp only: of_nat_le_iff)
  also have "real (p * 2 ^ nat (- d)) = real p * 2 ^ nat (- d)"
    by simp
  also have "(2::real) ^ nat (- d) = 2 powi (- d)"
    using nonneg by (rule pw_nat)
  also have "real q \<le> real p * 2 powi (- d) \<longleftrightarrow> real q * 2 powi d \<le> (real p * 2 powi (- d)) * 2 powi d"
    using pw_pos [of d] by (simp only: mult_le_cancel_right_pos)
  also have "(real p * 2 powi (- d)) * 2 powi d = real p"
    using pw_neg [of d] by (simp only: mult.assoc mult_1_right)
  finally show ?thesis
    using False by simp
qed

lemma floor_log2_bounds:
  assumes "0 < p" and "0 < q"
  shows "2 powi (floor_log2 p q) \<le> real p / real q"
    and "real p / real q < 2 powi (floor_log2 p q + 1)"
proof -
  define d where "d = int (bit_length p) - int (bit_length q)"
  note Pb = bit_length_real [OF assms(1)] and Qb = bit_length_real [OF assms(2)]
  have q: "0 < real q" using assms by simp
  have fl: "floor_log2 p q = (if real q * 2 powi d \<le> real p then d else d - 1)"
    unfolding floor_log2_def Let_def d_def [symmetric] floor_log2_test [OF assms(2)] ..
  have up: "real p < 2 powi (d + 1) * real q"
  proof -
    have "real p < 2 powi (int (bit_length p))" by (rule Pb)
    also have "int (bit_length p) = (d + 1) + (int (bit_length q) - 1)"
      unfolding d_def by simp
    also have "(2::real) powi ((d + 1) + (int (bit_length q) - 1))
        = 2 powi (d + 1) * 2 powi (int (bit_length q) - 1)"
      by (rule pw_add)
    also have "\<dots> \<le> 2 powi (d + 1) * real q"
      using Qb(1) pw_pos [of "d + 1"] by (simp only: mult_le_cancel_left_pos)
    finally show ?thesis .
  qed
  have low: "2 powi (d - 1) * real q \<le> real p"
  proof -
    have "real q \<le> 2 powi (int (bit_length q))"
      using Qb(2) by (rule less_imp_le)
    then have "2 powi (d - 1) * real q \<le> 2 powi (d - 1) * 2 powi (int (bit_length q))"
      using pw_pos [of "d - 1"] by (simp only: mult_le_cancel_left_pos)
    also have "\<dots> = 2 powi ((d - 1) + int (bit_length q))"
      by (rule pw_add [symmetric])
    also have "(d - 1) + int (bit_length q) = int (bit_length p) - 1"
      unfolding d_def by simp
    also have "2 powi (int (bit_length p) - 1) \<le> real p" by (rule Pb)
    finally show ?thesis .
  qed
  show "2 powi (floor_log2 p q) \<le> real p / real q"
  proof (cases "real q * 2 powi d \<le> real p")
    case True
    then have "2 powi d * real q \<le> real p"
      by (subst mult.commute)
    then have "2 powi d \<le> real p / real q"
      using q by (simp only: pos_le_divide_eq)
    moreover have "floor_log2 p q = d"
      unfolding fl using True by (rule if_P)
    ultimately show ?thesis by (simp only:)
  next
    case False
    from low have "2 powi (d - 1) \<le> real p / real q"
      using q by (simp only: pos_le_divide_eq)
    moreover have "floor_log2 p q = d - 1"
      unfolding fl using False by (rule if_not_P)
    ultimately show ?thesis by (simp only:)
  qed
  show "real p / real q < 2 powi (floor_log2 p q + 1)"
  proof (cases "real q * 2 powi d \<le> real p")
    case True
    from up have "real p / real q < 2 powi (d + 1)"
      using q by (simp only: pos_divide_less_eq)
    moreover have "floor_log2 p q = d"
      unfolding fl using True by (rule if_P)
    ultimately show ?thesis by (simp only:)
  next
    case False
    then have "real p < 2 powi d * real q"
      by (subst mult.commute) (simp only: not_le)
    then have "real p / real q < 2 powi d"
      using q by (simp only: pos_divide_less_eq)
    moreover have "floor_log2 p q = d - 1"
      unfolding fl using False by (rule if_not_P)
    ultimately show ?thesis by simp
  qed
qed

text \<open>The rounding of a positive rational: half a unit in the last place.\<close>

lemma round64_mantissa:
  fixes p q :: nat and E :: int
  assumes "0 < q"
    and m_def: "m = (if E < 0 then round_half_even (p * 2 ^ nat (- E)) q
                  else round_half_even p (q * 2 ^ nat E))"
  shows "\<bar>real m * 2 powi E - real p / real q\<bar> \<le> 2 powi (E - 1)"
proof -
  have scaled_error: "\<bar>real m - real p / real q * 2 powi (- E)\<bar> \<le> 1 / 2"
  proof (cases "E < 0")
    case True
    then have "0 \<le> - E" by simp
    then have pw: "(2::real) ^ nat (- E) = 2 powi (- E)" by (rule pw_nat)
    have "real (p * 2 ^ nat (- E)) = real p * 2 ^ nat (- E)"
      by simp
    then have eq: "real (p * 2 ^ nat (- E)) / real q = real p / real q * 2 powi (- E)"
      unfolding pw by simp
    have m: "m = round_half_even (p * 2 ^ nat (- E)) q"
      unfolding m_def using True by simp
    from round_half_even_error [OF assms(1), of "p * 2 ^ nat (- E)"]
    show ?thesis
      by (simp only: eq m)
  next
    case False
    then have "0 \<le> E" by simp
    then have pw: "(2::real) ^ nat E = 2 powi E" by (rule pw_nat)
    have inv: "(2::real) powi (- E) = 1 / 2 powi E"
      by (rule power_int_minus_divide)
    have "real (q * 2 ^ nat E) = real q * 2 ^ nat E"
      by simp
    then have eq: "real p / real (q * 2 ^ nat E) = real p / real q * 2 powi (- E)"
      unfolding pw inv by simp
    have pos: "0 < q * 2 ^ nat E"
      using assms(1) by simp
    have m: "m = round_half_even p (q * 2 ^ nat E)"
      unfolding m_def using False by simp
    from round_half_even_error [OF pos, of p]
    show ?thesis
      by (simp only: eq m)
  qed
  have "\<bar>real m * 2 powi E - real p / real q\<bar>
      = \<bar>(real m - real p / real q * 2 powi (- E)) * 2 powi E\<bar>"
    using pw_neg [of E] by (simp add: algebra_simps)
  also have "\<dots> = \<bar>real m - real p / real q * 2 powi (- E)\<bar> * 2 powi E"
    using pw_pos [of E] by (simp add: abs_mult)
  also have "\<dots> \<le> 1 / 2 * 2 powi E"
    using scaled_error pw_pos [of E] by (simp only: mult_le_cancel_right_pos)
  also have "1 / 2 * 2 powi E = (2::real) powi (E - 1)"
    using pw_add [of "E - 1" 1] by simp
  finally show ?thesis .
qed

lemma round64_error:
  assumes "0 < q" and "round64 s p q = Finite t n f"
  shows "t = s"
    and "\<bar>real n * 2 powi f - real p / real q\<bar> \<le> unit_roundoff * (real p / real q) + underflow"
proof -
  define E where "E = max (floor_log2 p q) (- 1022) - 52"
  define m where "m = (if E < 0 then round_half_even (p * 2 ^ nat (- E)) q
                       else round_half_even p (q * 2 ^ nat E))"
  have ratio: "0 \<le> real p / real q"
    by simp
  have tiny: "0 \<le> underflow" and eps: "0 < unit_roundoff"
    by (simp_all add: underflow_def unit_roundoff_def)
  have result: "t = s \<and> \<bar>real n * 2 powi f - real p / real q\<bar>
      \<le> unit_roundoff * (real p / real q) + underflow"
  proof (cases "p = 0")
    case True
    with assms(2) have "t = s" and "n = 0"
      by (simp_all add: round64_def)
    with True tiny show ?thesis
      by simp
  next
    case False
    then have p: "0 < p" by simp
    note r = round64_def [of s p q, unfolded Let_def, folded E_def, folded m_def]
    have t: "t = s" and n: "n = (if m = 2 ^ 53 then 2 ^ 52 else m)"
      and f: "f = (if m = 2 ^ 53 then E + 1 else E)"
      using r False assms(2) by (auto split: if_splits)
    have same: "real n * 2 powi f = real m * 2 powi E"
    proof (cases "m = 2 ^ 53")
      case True
      have "(2::real) powi (E + 1) = 2 powi E * 2"
        using pw_add [of E 1] by simp
      with True show ?thesis
        unfolding n f by simp
    next
      case False
      then show ?thesis
        unfolding n f by simp
    qed
    have "2 powi (E - 1) \<le> unit_roundoff * (real p / real q) + underflow"
    proof (cases "- 1022 \<le> floor_log2 p q")
      case True
      then have "E - 1 = - 53 + floor_log2 p q"
        unfolding E_def by simp
      then have "(2::real) powi (E - 1) = unit_roundoff * 2 powi (floor_log2 p q)"
        unfolding unit_roundoff_def by (simp only: pw_add)
      also have "\<dots> \<le> unit_roundoff * (real p / real q)"
        using floor_log2_bounds(1) [OF p assms(1)] eps
        by (simp only: mult_le_cancel_left_pos)
      finally show ?thesis
        using tiny by simp
    next
      case False
      then have "E - 1 = - 1075"
        unfolding E_def by simp
      then have "(2::real) powi (E - 1) = underflow"
        unfolding underflow_def by (simp only:)
      moreover have "0 \<le> unit_roundoff * (real p / real q)"
        using eps by simp
      ultimately show ?thesis
        by simp
    qed
    with round64_mantissa [OF assms(1) m_def] t show ?thesis
      unfolding same by simp
  qed
  from result show "t = s" ..
  from result show "\<bar>real n * 2 powi f - real p / real q\<bar>
      \<le> unit_roundoff * (real p / real q) + underflow" ..
qed

text \<open>The error of a rounded binary number, of a product and of a sum.\<close>

lemma valof_Finite: "valof (Finite s m e) = (if s then - 1 else 1) * real m * 2 powi e"
  by (simp add: valof_def)

lemma abs_valof: "\<bar>valof (Finite s m e)\<bar> = real m * 2 powi e"
  by (simp add: valof_Finite abs_mult)

lemma scaled_error:
  assumes "scaled s m e = Finite t n f"
  shows "\<bar>valof (Finite t n f) - valof (Finite s m e)\<bar>
      \<le> unit_roundoff * \<bar>valof (Finite s m e)\<bar> + underflow"
proof -
  have "\<exists>p q. 0 < q \<and> round64 s p q = Finite t n f \<and> real p / real q = real m * 2 powi e"
  proof (cases "0 \<le> e")
    case True
    then have "(2::real) ^ nat e = 2 powi e" by (rule pw_nat)
    then have "real (m * 2 ^ nat e) / real 1 = real m * 2 powi e"
      by simp
    moreover from assms True have "round64 s (m * 2 ^ nat e) 1 = Finite t n f"
      by (simp add: scaled_def)
    ultimately show ?thesis
      by (intro exI [of _ "m * 2 ^ nat e"] exI [of _ 1]) simp
  next
    case False
    then have "0 \<le> - e" by simp
    then have "(2::real) ^ nat (- e) = 2 powi (- e)" by (rule pw_nat)
    moreover have "real m / 2 powi (- e) = real m * 2 powi e"
      by (simp add: power_int_minus field_simps)
    ultimately have "real m / real (2 ^ nat (- e)) = real m * 2 powi e"
      by simp
    moreover from assms False have "round64 s m (2 ^ nat (- e)) = Finite t n f"
      by (simp add: scaled_def)
    ultimately show ?thesis
      by (intro exI [of _ m] exI [of _ "2 ^ nat (- e)"]) simp
  qed
  then obtain p q where q: "0 < q" and r: "round64 s p q = Finite t n f"
    and v: "real p / real q = real m * 2 powi e"
    by blast
  from round64_error [OF q r] have t: "t = s"
    and err: "\<bar>real n * 2 powi f - real m * 2 powi e\<bar> \<le> unit_roundoff * (real m * 2 powi e) + underflow"
    unfolding v by simp_all
  have "valof (Finite t n f) - valof (Finite s m e)
      = (if s then - 1 else 1) * (real n * 2 powi f - real m * 2 powi e)"
    unfolding valof_Finite t by (simp add: algebra_simps)
  then have "\<bar>valof (Finite t n f) - valof (Finite s m e)\<bar> = \<bar>real n * 2 powi f - real m * 2 powi e\<bar>"
    by (simp add: abs_mult)
  with err show ?thesis
    unfolding abs_valof by simp
qed

lemma fmul_error:
  assumes "fmul (Finite s m e) (Finite t n f) = Finite u k g"
  shows "\<bar>valof (Finite u k g) - valof (Finite s m e) * valof (Finite t n f)\<bar>
      \<le> unit_roundoff * \<bar>valof (Finite s m e) * valof (Finite t n f)\<bar> + underflow"
proof -
  have tiny: "0 \<le> underflow"
    by (simp add: underflow_def)
  have product: "valof (Finite (s \<noteq> t) (m * n) (e + f)) = valof (Finite s m e) * valof (Finite t n f)"
    unfolding valof_Finite pw_add by simp
  show ?thesis
  proof (cases "m = 0 \<or> n = 0")
    case True
    with assms have "k = 0"
      by auto
    with True tiny show ?thesis
      by (auto simp: valof_Finite)
  next
    case False
    with assms have "scaled (s \<noteq> t) (m * n) (e + f) = Finite u k g"
      by simp
    from scaled_error [OF this] show ?thesis
      unfolding product .
  qed
qed

lemma valof_signed: "valof (Finite s m e) = real_of_int (signed s m) * 2 powi e"
  by (simp add: valof_Finite signed_def)

lemma valof_of_int: "valof (Finite (k < 0) (nat \<bar>k\<bar>) g) = real_of_int k * 2 powi g"
  by (simp add: valof_Finite)

lemma aligned:
  assumes "g \<le> e"
  shows "real_of_int (a * 2 ^ nat (e - g)) * 2 powi g = real_of_int a * 2 powi e"
proof -
  from assms have "0 \<le> e - g" by simp
  then have "(2::real) ^ nat (e - g) = 2 powi (e - g)" by (rule pw_nat)
  moreover have "(2::real) powi (e - g) * 2 powi g = 2 powi e"
    using pw_add [of "e - g" g] by simp
  ultimately show ?thesis
    by (simp add: mult.assoc)
qed

lemma exact_sum_error:
  assumes "exact_sum s m e t n f = Finite u k g"
  shows "\<bar>valof (Finite u k g) - (valof (Finite s m e) + valof (Finite t n f))\<bar>
      \<le> unit_roundoff * \<bar>valof (Finite s m e) + valof (Finite t n f)\<bar> + underflow"
proof -
  have tiny: "0 \<le> underflow"
    by (simp add: underflow_def)
  consider (zeros) "m = 0" "n = 0" | (right) "m \<noteq> 0" "n = 0" | (left) "m = 0" "n \<noteq> 0"
    | (both) "m \<noteq> 0" "n \<noteq> 0"
    by blast
  then show ?thesis
  proof cases
    case zeros
    with assms have "k = 0"
      by (simp add: exact_sum_def)
    with zeros tiny show ?thesis
      by (simp add: valof_Finite)
  next
    case right
    with assms have "scaled s m e = Finite u k g"
      by (simp add: exact_sum_def)
    from scaled_error [OF this] right show ?thesis
      by (simp add: valof_Finite)
  next
    case left
    with assms have "scaled t n f = Finite u k g"
      by (simp add: exact_sum_def)
    from scaled_error [OF this] left show ?thesis
      by (simp add: valof_Finite)
  next
    case both
    define h where "h = min e f"
    define j where "j = signed s m * 2 ^ nat (e - h) + signed t n * 2 ^ nat (f - h)"
    have he: "h \<le> e" and hf: "h \<le> f"
      unfolding h_def by simp_all
    have "real_of_int (signed s m * 2 ^ nat (e - h)) * 2 powi h = valof (Finite s m e)"
      unfolding valof_signed using he by (rule aligned)
    moreover have "real_of_int (signed t n * 2 ^ nat (f - h)) * 2 powi h = valof (Finite t n f)"
      unfolding valof_signed using hf by (rule aligned)
    ultimately have sum: "valof (Finite s m e) + valof (Finite t n f) = real_of_int j * 2 powi h"
      unfolding j_def by (simp only: of_int_add distrib_right)
    note r = exact_sum_def [of s m e t n f, unfolded Let_def, folded h_def, folded j_def]
    have result:
      "(if j = 0 then Finite False 0 (- 1074) else scaled (j < 0) (nat \<bar>j\<bar>) h) = Finite u k g"
      using assms both unfolding r by (simp only: simp_thms if_False)
    show ?thesis
    proof (cases "j = 0")
      case True
      with result have "k = 0"
        by simp
      with True tiny show ?thesis
        unfolding sum by (simp add: valof_Finite)
    next
      case False
      with result have "scaled (j < 0) (nat \<bar>j\<bar>) h = Finite u k g"
        by simp
      from scaled_error [OF this] show ?thesis
        unfolding sum valof_of_int .
    qed
  qed
qed

text \<open>A finite result has finite operands.\<close>

lemma fadd_Finite:
  assumes "fadd x y = Finite u k g"
  obtains s m e t n f where "x = Finite s m e" and "y = Finite t n f"
    and "exact_sum s m e t n f = Finite u k g"
  using assms by (cases x; cases y) (auto split: if_splits)

lemma fmul_Finite:
  assumes "fmul x y = Finite u k g"
  obtains s m e t n f where "x = Finite s m e" and "y = Finite t n f"
  using assms by (cases x; cases y) (auto split: if_splits)

text \<open>The constants of the conversions, as real numbers.\<close>

lemma unit_roundoff_eq: "unit_roundoff = 1 / 9007199254740992"
  by (simp add: unit_roundoff_def)

lemma underflow_bounds: "0 \<le> underflow" "underflow \<le> unit_roundoff / 1024"
proof -
  show "0 \<le> underflow"
    by (simp add: underflow_def)
  have "(2::real) powi (- 1075) \<le> 2 powi (- 63)"
    by (rule power_int_increasing) simp_all
  also have "(2::real) powi (- 63) = unit_roundoff / 1024"
    by (simp add: unit_roundoff_def)
  finally show "underflow \<le> unit_roundoff / 1024"
    unfolding underflow_def .
qed

lemma valof_1_8: "valof (Finite False 8106479329266893 (- 52)) = 9 / 5 + 2 / 5 * unit_roundoff"
  by (simp add: valof_Finite unit_roundoff_def)

lemma valof_32: "valof (Finite False 4503599627370496 (- 47)) = 32"
  by (simp add: valof_Finite)

lemma valof_273_15: "valof (Finite False 4805305618032230 (- 44)) = 27315 / 100 - 1024 / 5 * unit_roundoff"
  by (simp add: valof_Finite unit_roundoff_def)

text \<open>
  The conversions against the formulas over the real numbers: a finite result differs
  from \<open>c * 1.8 + 32\<close> by at most \<open>5 * \<bar>c\<bar> + 33\<close> unit roundoffs, and from \<open>c + 273.15\<close> by
  at most \<open>\<bar>c\<bar> + 479\<close> unit roundoffs.
\<close>

lemma celsiusToFahrenheit_accuracy:
  assumes "celsiusToFahrenheit c = Finite u k g"
  shows "\<bar>valof (Finite u k g) - (valof c * (18 / 10) + 32)\<bar> \<le> unit_roundoff * (5 * \<bar>valof c\<bar> + 33)"
proof -
  from assms have sum: "fadd (fmul c (Finite False 8106479329266893 (- 52)))
      (Finite False 4503599627370496 (- 47)) = Finite u k g"
    by (simp add: celsiusToFahrenheit_def constant_1_8 constant_32)
  from sum obtain s1 m1 e1 where product: "fmul c (Finite False 8106479329266893 (- 52)) = Finite s1 m1 e1"
    and add: "exact_sum s1 m1 e1 False 4503599627370496 (- 47) = Finite u k g"
    by (elim fadd_Finite) simp
  from product obtain s m e where c: "c = Finite s m e"
    by (elim fmul_Finite)
  define kap :: real where "kap = 9 / 5 + 2 / 5 * unit_roundoff"
  define x p F where "x = valof c" and "p = valof (Finite s1 m1 e1)" and "F = valof (Finite u k g)"
  define y where "y = x * kap"
  define a A1 A2 A3 G where "a = \<bar>x\<bar>" and "A1 = \<bar>p - y\<bar>" and "A2 = \<bar>F - (p + 32)\<bar>"
    and "A3 = \<bar>p + 32\<bar>" and "G = \<bar>F - (x * (18 / 10) + 32)\<bar>"
  have kap: "0 \<le> kap" "0 \<le> kap - 18 / 10"
    by (simp_all add: kap_def unit_roundoff_eq)
  have y: "\<bar>y\<bar> = a * kap"
    unfolding y_def a_def using kap(1) by (simp add: abs_mult)
  have "y - x * (18 / 10) = x * (kap - 18 / 10)"
    unfolding y_def by (simp add: algebra_simps)
  then have d: "\<bar>y - x * (18 / 10)\<bar> = a * (kap - 18 / 10)"
    unfolding a_def using kap(2) by (simp only: abs_mult abs_of_nonneg)
  from fmul_error [OF product [unfolded c]]
  have t1: "A1 \<le> unit_roundoff * (a * kap) + underflow"
    unfolding valof_1_8 kap_def [symmetric] c [symmetric] x_def [symmetric] p_def [symmetric]
      y_def [symmetric] y A1_def .
  from exact_sum_error [OF add]
  have t2: "A2 \<le> unit_roundoff * A3 + underflow"
    unfolding valof_32 p_def [symmetric] F_def [symmetric] A2_def A3_def .
  have t3: "A3 \<le> A1 + a * kap + 32"
    unfolding A3_def A1_def y [symmetric] by arith
  have t4: "G \<le> A2 + A1 + a * (kap - 18 / 10)"
    unfolding G_def A2_def A1_def d [symmetric] by arith
  have a: "0 \<le> a"
    unfolding a_def by simp
  note u = underflow_bounds
  have "G \<le> unit_roundoff * (5 * a + 33)"
    using t1 t2 t3 t4 a u unfolding kap_def unit_roundoff_eq by (simp add: algebra_simps)
  then show ?thesis
    unfolding G_def a_def x_def F_def .
qed

lemma celsiusToKelvin_accuracy:
  assumes "celsiusToKelvin c = Finite u k g"
  shows "\<bar>valof (Finite u k g) - (valof c + 27315 / 100)\<bar> \<le> unit_roundoff * (\<bar>valof c\<bar> + 479)"
proof -
  from assms have sum: "fadd c (Finite False 4805305618032230 (- 44)) = Finite u k g"
    by (simp add: celsiusToKelvin_def constant_273_15)
  from sum obtain s m e where c: "c = Finite s m e"
    and add: "exact_sum s m e False 4805305618032230 (- 44) = Finite u k g"
    by (elim fadd_Finite) simp
  define x K where "x = valof c" and "K = valof (Finite u k g)"
  define a A G where "a = \<bar>x\<bar>" and "A = \<bar>x + (27315 / 100 - 1024 / 5 * unit_roundoff)\<bar>"
    and "G = \<bar>K - (x + 27315 / 100)\<bar>"
  from exact_sum_error [OF add]
  have t1: "\<bar>K - (x + (27315 / 100 - 1024 / 5 * unit_roundoff))\<bar> \<le> unit_roundoff * A + underflow"
    unfolding valof_273_15 c [symmetric] x_def [symmetric] K_def [symmetric] A_def .
  have t2: "A \<le> a + 27315 / 100"
    unfolding A_def a_def unit_roundoff_eq by arith
  have t3: "G \<le> \<bar>K - (x + (27315 / 100 - 1024 / 5 * unit_roundoff))\<bar> + 1024 / 5 * unit_roundoff"
    unfolding G_def unit_roundoff_eq by arith
  have a: "0 \<le> a"
    unfolding a_def by simp
  note u = underflow_bounds
  have "G \<le> unit_roundoff * (a + 479)"
    using t1 t2 t3 a u unfolding unit_roundoff_eq by (simp add: algebra_simps)
  then show ?thesis
    unfolding G_def a_def x_def K_def .
qed

text \<open>
  Claim C4. For every Celsius value \<open>c\<close>, \<open>celsiusToFahrenheit c\<close> is \<open>c * 1.8 + 32\<close> and
  \<open>celsiusToKelvin c\<close> is \<open>c + 273.15\<close>, computed in float64: the results are these float64
  expressions, and when finite they lie within a few unit roundoffs of the formulas over
  the real numbers. In particular 25.0 gives 77.0 and 298.15, and 0.0 gives 32.0 and
  273.15; the Fahrenheit values are the same when the compiler fuses the multiplication
  and the addition.
\<close>

theorem conversion_formulas:
  "celsiusToFahrenheit c = fadd (fmul c (decimal False 18 (- 1))) (decimal False 32 0)
   \<and> celsiusToKelvin c = fadd c (decimal False 27315 (- 2))
   \<and> (is_finite (celsiusToFahrenheit c) \<longrightarrow>
        \<bar>valof (celsiusToFahrenheit c) - (valof c * (18 / 10) + 32)\<bar>
          \<le> unit_roundoff * (5 * \<bar>valof c\<bar> + 33))
   \<and> (is_finite (celsiusToKelvin c) \<longrightarrow>
        \<bar>valof (celsiusToKelvin c) - (valof c + 27315 / 100)\<bar>
          \<le> unit_roundoff * (\<bar>valof c\<bar> + 479))
   \<and> celsiusToFahrenheit (decimal False 25 0) = decimal False 77 0
   \<and> celsiusToKelvin (decimal False 25 0) = decimal False 29815 (- 2)
   \<and> celsiusToFahrenheit (decimal False 0 0) = decimal False 32 0
   \<and> celsiusToKelvin (decimal False 0 0) = decimal False 27315 (- 2)
   \<and> celsiusToFahrenheit_fused (decimal False 25 0) = decimal False 77 0
   \<and> celsiusToFahrenheit_fused (decimal False 0 0) = decimal False 32 0"
proof -
  have F: "is_finite (celsiusToFahrenheit c) \<longrightarrow>
        \<bar>valof (celsiusToFahrenheit c) - (valof c * (18 / 10) + 32)\<bar>
          \<le> unit_roundoff * (5 * \<bar>valof c\<bar> + 33)"
  proof
    assume "is_finite (celsiusToFahrenheit c)"
    then obtain u k g where r: "celsiusToFahrenheit c = Finite u k g"
      by (cases "celsiusToFahrenheit c") (simp_all add: is_finite_def)
    from celsiusToFahrenheit_accuracy [OF r]
    show "\<bar>valof (celsiusToFahrenheit c) - (valof c * (18 / 10) + 32)\<bar>
          \<le> unit_roundoff * (5 * \<bar>valof c\<bar> + 33)"
      unfolding r .
  qed
  have K: "is_finite (celsiusToKelvin c) \<longrightarrow>
        \<bar>valof (celsiusToKelvin c) - (valof c + 27315 / 100)\<bar>
          \<le> unit_roundoff * (\<bar>valof c\<bar> + 479)"
  proof
    assume "is_finite (celsiusToKelvin c)"
    then obtain u k g where r: "celsiusToKelvin c = Finite u k g"
      by (cases "celsiusToKelvin c") (simp_all add: is_finite_def)
    from celsiusToKelvin_accuracy [OF r]
    show "\<bar>valof (celsiusToKelvin c) - (valof c + 27315 / 100)\<bar>
          \<le> unit_roundoff * (\<bar>valof c\<bar> + 479)"
      unfolding r .
  qed
  have defs: "celsiusToFahrenheit c = fadd (fmul c (decimal False 18 (- 1))) (decimal False 32 0)"
    "celsiusToKelvin c = fadd c (decimal False 27315 (- 2))"
    by (simp_all only: celsiusToFahrenheit_def celsiusToKelvin_def)
  from defs F K conversions_25 conversions_0 show ?thesis
    by (intro conjI)
qed

text \<open>
  The witness: 25.0 has finite conversions, which are within the bounds; the Kelvin
  value is the float64 nearest to 298.15, which is not 298.15.
\<close>

theorem conversion_formulas_witness:
  "is_finite (celsiusToFahrenheit (decimal False 25 0))
   \<and> \<bar>valof (celsiusToFahrenheit (decimal False 25 0)) - (valof (decimal False 25 0) * (18 / 10) + 32)\<bar>
        \<le> unit_roundoff * (5 * \<bar>valof (decimal False 25 0)\<bar> + 33)
   \<and> is_finite (celsiusToKelvin (decimal False 25 0))
   \<and> \<bar>valof (celsiusToKelvin (decimal False 25 0)) - (valof (decimal False 25 0) + 27315 / 100)\<bar>
        \<le> unit_roundoff * (\<bar>valof (decimal False 25 0)\<bar> + 479)
   \<and> valof (decimal False 25 0) = 25
   \<and> valof (celsiusToFahrenheit (decimal False 25 0)) = 77
   \<and> valof (celsiusToKelvin (decimal False 25 0)) = 29815 / 100 - 1024 / 5 * unit_roundoff"
proof -
  have c: "decimal False 25 0 = Finite False 7036874417766400 (- 48)"
    and f: "decimal False 77 0 = Finite False 5418393301680128 (- 46)"
    and k: "decimal False 29815 (- 2) = Finite False 5245110269142630 (- 44)"
    by (simp_all add: float_eval)
  have fin: "is_finite (celsiusToFahrenheit (decimal False 25 0))"
      "is_finite (celsiusToKelvin (decimal False 25 0))"
    by (simp_all only: conversions_25) (simp_all add: f k is_finite_def)
  have vals: "valof (decimal False 25 0) = 25"
      "valof (celsiusToFahrenheit (decimal False 25 0)) = 77"
      "valof (celsiusToKelvin (decimal False 25 0)) = 29815 / 100 - 1024 / 5 * unit_roundoff"
    by (simp_all only: conversions_25) (simp_all add: c f k valof_Finite unit_roundoff_def)
  from conversion_formulas [of "decimal False 25 0"] fin vals show ?thesis
    by (intro conjI) (simp_all only: simp_thms)
qed

section \<open>A success status without a body\<close>

text \<open>
  A Celsius reading whose Fahrenheit conversion overflows float64: the conversion is the
  positive infinity, the encoder refuses it after the header is written, and the client
  receives status 200 with an empty body.
\<close>

lemma constant_1e308: "decimal False 10 307 = Finite False 5010420900022432 971"
  by (simp add: float_eval)

lemma Fahrenheit_overflow: "celsiusToFahrenheit (Finite False 5010420900022432 971) = Infinity False"
  by (simp add: float_eval constant_1_8 [unfolded decimal_def, simplified])

lemma Decode_weather_1e308:
  "Decode_WeatherAPIResponse (Doc weather_1e308) =
   Inr \<lparr>Location = \<lparr>Name = ''Sao Paulo'', Region = [], Country = []\<rparr>,
        Current = \<lparr>Current_TempC = Finite False 5010420900022432 971, Current_TempF = zero_float64\<rparr>\<rparr>"
  by (simp add: weather_1e308_def Decode_WeatherAPIResponse_def Decode_def struct_value_def
      member_WeatherAPIResponse_def member_Location_def member_Current_def find_field_def
      into_field_def store_string_def store_float64_def zero_WeatherAPIResponse_def
      is_finite_def constant_1e308)

lemma empty_body_at_status_200:
  "fst (Resolver (providers (Some ''key'') (ok viacep_Sao_Paulo) (ok weather_1e308)) (post_cep ''01001000'')) =
     Some \<lparr>StatusCode = 200, RespHeader = [(''Content-Type'', ''application/json'')], RespBody = []\<rparr>"
proof -
  let ?env = "providers (Some ''key'') (ok viacep_Sao_Paulo) (ok weather_1e308)"
  have "\<exists>K. getWeatherFromAPI ?env Sao_Paulo =
      (Inr \<lparr>City = ''Sao Paulo'', TempC = Finite False 5010420900022432 971,
             TempF = Infinity False, TempK = K\<rparr>, [weather_request ''key'' Sao_Paulo])"
    by (simp add: getWeatherFromAPI_def Getenv_def NewRequestWithContext_def providers_def ok_def
        Decode_weather_1e308 Fahrenheit_overflow weather_request_def Let_def)
  then obtain K where "getWeatherFromAPI ?env Sao_Paulo =
      (Inr \<lparr>City = ''Sao Paulo'', TempC = Finite False 5010420900022432 971,
             TempF = Infinity False, TempK = K\<rparr>, [weather_request ''key'' Sao_Paulo])" ..
  then show ?thesis
    by (simp add: Resolver_def handleWeather_valid [OF Method_post_cep Decode_CEPRequest_post_cep]
        valid_01001000 getLocation_Sao_Paulo served_weather is_finite_def weather_response_def)
qed

end
